theory Spec2Isabelle
  imports Main
begin

section \<open>Errors and results\<close>

text \<open>
  The four error classes of \<^verbatim>\<open>src/types/index.ts\<close>, each carrying its message, and the
  plain JavaScript \<^verbatim>\<open>Error\<close>. An operation that throws returns \<open>Inl\<close> of the error
  together with the state as the throw left it; one that returns gives \<open>Inr\<close>.
\<close>

datatype error =
    BridgeError string
  | ValidationError string
  | AssetError string
  | SecurityError string
  | Error string

fun is_BridgeError :: "error + 'a \<Rightarrow> bool" where
  "is_BridgeError (Inl (BridgeError m)) = True"
| "is_BridgeError r = False"

fun is_AssetError :: "error + 'a \<Rightarrow> bool" where
  "is_AssetError (Inl (AssetError m)) = True"
| "is_AssetError r = False"

fun is_SecurityError :: "error + 'a \<Rightarrow> bool" where
  "is_SecurityError (Inl (SecurityError m)) = True"
| "is_SecurityError r = False"

fun succeeded :: "error + 'a \<Rightarrow> bool" where
  "succeeded (Inr v) = True"
| "succeeded (Inl e) = False"

section \<open>Data structures of \<^verbatim>\<open>types/index\<close>\<close>

datatype TransactionStatus = PENDING | LOCKED | MINTED | BURNED | UNLOCKED | FAILED | CANCELLED

text \<open>
  \<^verbatim>\<open>bigint\<close> fields are \<open>int\<close>; \<^verbatim>\<open>number\<close> fields that hold millisecond clocks or
  counts are \<open>int\<close> as well. The transaction record is the one the bridges are compiled
  against (\<^verbatim>\<open>dist/types/index.d.ts\<close>), whose fields the bridges write.
\<close>

record AssetInfo =
  tokenAddress :: string
  symbol :: string
  decimals :: int
  lockedAmount :: int
  mintedAmount :: int
  isActive :: bool
  lastUpdate :: int

record ValidatorInfo =
  validatorAddress :: string
  stakeAmount :: int
  v_isActive :: bool
  lastValidation :: int
  slashedAmount :: int

record Transaction =
  tx_symbol :: string
  tx_amount :: int
  sender :: string
  recipient :: string
  sourceChain :: string
  targetChain :: string
  tx_timestamp :: int
  status :: TransactionStatus
  validatorSignatures :: "string list"

section \<open>MasterBridge (\<^verbatim>\<open>src/bridges/AssetManager.ts\<close>, second class)\<close>

record MasterBridge =
  initialized :: bool
  bridgeId :: string
  validators :: "string \<rightharpoonup> ValidatorInfo"
  assets :: "string \<rightharpoonup> AssetInfo"
  transactions :: "string \<rightharpoonup> Transaction"
  paused :: bool

definition MasterBridge_new :: "string \<Rightarrow> MasterBridge" where
  "MasterBridge_new bid =
     \<lparr>initialized = False, bridgeId = bid, validators = Map.empty, assets = Map.empty,
      transactions = Map.empty, paused = False\<rparr>"

text \<open>Every operation takes the value \<^verbatim>\<open>Date.now()\<close> would return as \<open>now\<close>.\<close>

definition MasterBridge_registerAsset ::
  "MasterBridge \<Rightarrow> int \<Rightarrow> string \<Rightarrow> string \<Rightarrow> (error + unit) \<times> MasterBridge" where
  "MasterBridge_registerAsset s now symb addr =
     (if paused s then (Inl (BridgeError ''Bridge is paused''), s)
      else if assets s symb \<noteq> None
        then (Inl (BridgeError (''Asset '' @ symb @ '' already registered'')), s)
      else (Inr (),
        s\<lparr>assets := (assets s)(symb \<mapsto>
          \<lparr>tokenAddress = addr, symbol = symb, decimals = 18, lockedAmount = 0,
           mintedAmount = 0, isActive = True, lastUpdate = now\<rparr>)\<rparr>))"

definition MasterBridge_unregisterAsset ::
  "MasterBridge \<Rightarrow> string \<Rightarrow> (error + unit) \<times> MasterBridge" where
  "MasterBridge_unregisterAsset s symb =
     (if paused s then (Inl (BridgeError ''Bridge is paused''), s)
      else if assets s symb = None
        then (Inl (BridgeError (''Asset '' @ symb @ '' not registered'')), s)
      else (Inr (), s\<lparr>assets := (assets s)(symb := None)\<rparr>))"

definition MasterBridge_lockTokens ::
  "MasterBridge \<Rightarrow> int \<Rightarrow> string \<Rightarrow> int \<Rightarrow> (error + unit) \<times> MasterBridge" where
  "MasterBridge_lockTokens s now symb amount =
     (if paused s then (Inl (BridgeError ''Bridge is paused''), s)
      else case assets s symb of
        None \<Rightarrow> (Inl (BridgeError (''Asset '' @ symb @ '' not registered'')), s)
      | Some asset \<Rightarrow>
          (Inr (), s\<lparr>assets := (assets s)(symb \<mapsto>
             asset\<lparr>lockedAmount := lockedAmount asset + amount, lastUpdate := now\<rparr>)\<rparr>))"

definition MasterBridge_unlockTokens ::
  "MasterBridge \<Rightarrow> int \<Rightarrow> string \<Rightarrow> int \<Rightarrow> (error + unit) \<times> MasterBridge" where
  "MasterBridge_unlockTokens s now symb amount =
     (if paused s then (Inl (BridgeError ''Bridge is paused''), s)
      else case assets s symb of
        None \<Rightarrow> (Inl (BridgeError (''Asset '' @ symb @ '' not registered'')), s)
      | Some asset \<Rightarrow>
          if lockedAmount asset < amount
          then (Inl (BridgeError (''Insufficient locked amount for '' @ symb)), s)
          else (Inr (), s\<lparr>assets := (assets s)(symb \<mapsto>
             asset\<lparr>lockedAmount := lockedAmount asset - amount, lastUpdate := now\<rparr>)\<rparr>))"

definition MasterBridge_mintTokens ::
  "MasterBridge \<Rightarrow> int \<Rightarrow> string \<Rightarrow> int \<Rightarrow> (error + unit) \<times> MasterBridge" where
  "MasterBridge_mintTokens s now symb amount =
     (if paused s then (Inl (BridgeError ''Bridge is paused''), s)
      else case assets s symb of
        None \<Rightarrow> (Inl (BridgeError (''Asset '' @ symb @ '' not registered'')), s)
      | Some asset \<Rightarrow>
          (Inr (), s\<lparr>assets := (assets s)(symb \<mapsto>
             asset\<lparr>mintedAmount := mintedAmount asset + amount, lastUpdate := now\<rparr>)\<rparr>))"

definition MasterBridge_burnTokens ::
  "MasterBridge \<Rightarrow> int \<Rightarrow> string \<Rightarrow> int \<Rightarrow> (error + unit) \<times> MasterBridge" where
  "MasterBridge_burnTokens s now symb amount =
     (if paused s then (Inl (BridgeError ''Bridge is paused''), s)
      else case assets s symb of
        None \<Rightarrow> (Inl (BridgeError (''Asset '' @ symb @ '' not registered'')), s)
      | Some asset \<Rightarrow>
          if mintedAmount asset < amount
          then (Inl (BridgeError (''Insufficient minted amount for '' @ symb)), s)
          else (Inr (), s\<lparr>assets := (assets s)(symb \<mapsto>
             asset\<lparr>mintedAmount := mintedAmount asset - amount, lastUpdate := now\<rparr>)\<rparr>))"

definition MasterBridge_processTransaction ::
  "MasterBridge \<Rightarrow> string \<Rightarrow> (error + unit) \<times> MasterBridge" where
  "MasterBridge_processTransaction s txHash =
     (if paused s then (Inl (BridgeError ''Bridge is paused''), s)
      else case transactions s txHash of
        None \<Rightarrow> (Inl (BridgeError (''Transaction '' @ txHash @ '' not found'')), s)
      | Some t \<Rightarrow>
          if status t \<noteq> PENDING
          then (Inl (BridgeError (''Transaction '' @ txHash @ '' is not pending'')), s)
          else (Inr (), s\<lparr>transactions := (transactions s)(txHash \<mapsto> t\<lparr>status := LOCKED\<rparr>)\<rparr>))"

definition MasterBridge_pause :: "MasterBridge \<Rightarrow> (error + unit) \<times> MasterBridge" where
  "MasterBridge_pause s = (Inr (), s\<lparr>paused := True\<rparr>)"

definition MasterBridge_unpause :: "MasterBridge \<Rightarrow> (error + unit) \<times> MasterBridge" where
  "MasterBridge_unpause s = (Inr (), s\<lparr>paused := False\<rparr>)"

definition MasterBridge_emergencyWithdraw ::
  "MasterBridge \<Rightarrow> int \<Rightarrow> string \<Rightarrow> (error + unit) \<times> MasterBridge" where
  "MasterBridge_emergencyWithdraw s now symb =
     (case assets s symb of
        None \<Rightarrow> (Inl (BridgeError (''Asset '' @ symb @ '' not registered'')), s)
      | Some asset \<Rightarrow>
          (Inr (), s\<lparr>assets := (assets s)(symb \<mapsto>
             asset\<lparr>lockedAmount := 0, mintedAmount := 0, lastUpdate := now\<rparr>)\<rparr>))"

subsection \<open>Sequences of balance operations\<close>

text \<open>
  A call of one of the four balance operations, with the clock value it reads. A failed
  call throws before it writes anything, so a run carries on from the same state.
\<close>

datatype bridge_op =
    Lock string int
  | Unlock string int
  | Mint string int
  | Burn string int

fun apply_op :: "MasterBridge \<Rightarrow> int \<times> bridge_op \<Rightarrow> (error + unit) \<times> MasterBridge" where
  "apply_op s (now, Lock symb n) = MasterBridge_lockTokens s now symb n"
| "apply_op s (now, Unlock symb n) = MasterBridge_unlockTokens s now symb n"
| "apply_op s (now, Mint symb n) = MasterBridge_mintTokens s now symb n"
| "apply_op s (now, Burn symb n) = MasterBridge_burnTokens s now symb n"

fun run_ops :: "MasterBridge \<Rightarrow> (int \<times> bridge_op) list \<Rightarrow> MasterBridge" where
  "run_ops s [] = s"
| "run_ops s (e # es) = run_ops (snd (apply_op s e)) es"

text \<open>The calls of a run that returned, in order.\<close>

fun successful_ops :: "MasterBridge \<Rightarrow> (int \<times> bridge_op) list \<Rightarrow> bridge_op list" where
  "successful_ops s [] = []"
| "successful_ops s (e # es) =
     (if succeeded (fst (apply_op s e)) then [snd e] else [])
       @ successful_ops (snd (apply_op s e)) es"

fun op_amount :: "bridge_op \<Rightarrow> int" where
  "op_amount (Lock symb n) = n"
| "op_amount (Unlock symb n) = n"
| "op_amount (Mint symb n) = n"
| "op_amount (Burn symb n) = n"

text \<open>Amounts of the lock and mint calls on a symbol, and of its unlock and burn calls.\<close>

fun credit :: "string \<Rightarrow> bridge_op \<Rightarrow> int" where
  "credit symb (Lock symb' n) = (if symb' = symb then n else 0)"
| "credit symb (Mint symb' n) = (if symb' = symb then n else 0)"
| "credit symb (Unlock symb' n) = 0"
| "credit symb (Burn symb' n) = 0"

fun debit :: "string \<Rightarrow> bridge_op \<Rightarrow> int" where
  "debit symb (Unlock symb' n) = (if symb' = symb then n else 0)"
| "debit symb (Burn symb' n) = (if symb' = symb then n else 0)"
| "debit symb (Lock symb' n) = 0"
| "debit symb (Mint symb' n) = 0"

definition total_of :: "MasterBridge \<Rightarrow> string \<Rightarrow> int" where
  "total_of s symb = (case assets s symb of None \<Rightarrow> 0 | Some a \<Rightarrow> lockedAmount a + mintedAmount a)"

definition balances_nonneg :: "MasterBridge \<Rightarrow> string \<Rightarrow> bool" where
  "balances_nonneg s symb =
     (case assets s symb of None \<Rightarrow> True
      | Some a \<Rightarrow> 0 \<le> lockedAmount a \<and> 0 \<le> mintedAmount a)"

text \<open>
  The bridge the scenarios start from: a new bridge on which \<^verbatim>\<open>USDC\<close> has been
  registered at time 0, and the same bridge after \<^verbatim>\<open>lockTokens('USDC', 100n)\<close>.
\<close>

definition usdc_bridge :: MasterBridge where
  "usdc_bridge = snd (MasterBridge_registerAsset (MasterBridge_new ''bridge'') 0 ''USDC'' ''0xA'')"

definition usdc_bridge_locked :: MasterBridge where
  "usdc_bridge_locked = snd (MasterBridge_lockTokens usdc_bridge 1 ''USDC'' 100)"

text \<open>
  The same bridge after a second lock of 50, after the unlock of 120 that follows, and the
  bridge with 150 USDC locked to which WBTC is added with 7 minted.
\<close>

definition usdc_150 :: MasterBridge where
  "usdc_150 = snd (MasterBridge_lockTokens usdc_bridge_locked 2 ''USDC'' 50)"

definition usdc_30 :: MasterBridge where
  "usdc_30 = snd (MasterBridge_unlockTokens usdc_150 3 ''USDC'' 120)"

definition two_assets :: MasterBridge where
  "two_assets =
     snd (MasterBridge_mintTokens
            (snd (MasterBridge_registerAsset usdc_150 3 ''WBTC'' ''0xB'')) 4 ''WBTC'' 7)"

section \<open>AssetManager (\<^verbatim>\<open>src/bridges/AssetManager.ts\<close>, first class)\<close>

record AssetManager =
  am_assets :: "string \<rightharpoonup> AssetInfo"
  tokenAddresses :: "string \<rightharpoonup> string"

definition AssetManager_new :: AssetManager where
  "AssetManager_new = \<lparr>am_assets = Map.empty, tokenAddresses = Map.empty\<rparr>"

definition AssetManager_registerAsset ::
  "AssetManager \<Rightarrow> int \<Rightarrow> string \<Rightarrow> string \<Rightarrow> (error + unit) \<times> AssetManager" where
  "AssetManager_registerAsset am now symb addr =
     (if am_assets am symb \<noteq> None
        then (Inl (AssetError (''Asset '' @ symb @ '' already registered'')), am)
      else if tokenAddresses am addr \<noteq> None
        then (Inl (AssetError (''Token address '' @ addr @ '' already registered'')), am)
      else (Inr (),
        am\<lparr>am_assets := (am_assets am)(symb \<mapsto>
            \<lparr>tokenAddress = addr, symbol = symb, decimals = 18, lockedAmount = 0,
             mintedAmount = 0, isActive = True, lastUpdate = now\<rparr>),
          tokenAddresses := (tokenAddresses am)(addr \<mapsto> symb)\<rparr>))"

definition AssetManager_unregisterAsset ::
  "AssetManager \<Rightarrow> string \<Rightarrow> (error + unit) \<times> AssetManager" where
  "AssetManager_unregisterAsset am symb =
     (case am_assets am symb of
        None \<Rightarrow> (Inl (AssetError (''Asset '' @ symb @ '' not registered'')), am)
      | Some asset \<Rightarrow>
          (Inr (), am\<lparr>am_assets := (am_assets am)(symb := None),
                       tokenAddresses := (tokenAddresses am)(tokenAddress asset := None)\<rparr>))"

definition AssetManager_getAssetAddress :: "AssetManager \<Rightarrow> string \<Rightarrow> error + string" where
  "AssetManager_getAssetAddress am symb =
     (case am_assets am symb of
        None \<Rightarrow> Inl (AssetError (''Asset '' @ symb @ '' not registered''))
      | Some asset \<Rightarrow> Inr (tokenAddress asset))"

definition AssetManager_getLockedBalance :: "AssetManager \<Rightarrow> string \<Rightarrow> error + int" where
  "AssetManager_getLockedBalance am symb =
     (case am_assets am symb of
        None \<Rightarrow> Inl (AssetError (''Asset '' @ symb @ '' not registered''))
      | Some asset \<Rightarrow> Inr (lockedAmount asset))"

definition AssetManager_getTotalSupply :: "AssetManager \<Rightarrow> string \<Rightarrow> error + int" where
  "AssetManager_getTotalSupply am symb =
     (case am_assets am symb of
        None \<Rightarrow> Inl (AssetError (''Asset '' @ symb @ '' not registered''))
      | Some asset \<Rightarrow> Inr (lockedAmount asset + mintedAmount asset))"

text \<open>A registry holding USDC at the token address 0xA.\<close>

definition usdc_registry :: AssetManager where
  "usdc_registry = snd (AssetManager_registerAsset AssetManager_new 0 ''USDC'' ''0xA'')"

section \<open>AvalancheCeloBridge: the emergency withdrawal\<close>

text \<open>
  The fields \<^verbatim>\<open>emergencyWithdraw\<close> of \<^verbatim>\<open>AvalancheCeloBridge\<close> reads, with the
  \<^verbatim>\<open>IAssetManager\<close> it holds given by the class above. The method writes nothing.
\<close>

record AvalancheCeloBridge =
  isBridgeInitialized :: bool
  isPaused :: bool
  assetManager :: AssetManager

definition AvalancheCeloBridge_emergencyWithdraw ::
  "AvalancheCeloBridge \<Rightarrow> string \<Rightarrow> (error + unit) \<times> AvalancheCeloBridge" where
  "AvalancheCeloBridge_emergencyWithdraw s symb =
     (if \<not> isBridgeInitialized s then (Inl (BridgeError ''Bridge not initialized''), s)
      else if \<not> isPaused s
        then (Inl (BridgeError ''Bridge must be paused for emergency withdrawal''), s)
      else case AssetManager_getAssetAddress (assetManager s) symb of
        Inl e \<Rightarrow> (Inl e, s)
      | Inr addr \<Rightarrow>
          (case AssetManager_getLockedBalance (assetManager s) symb of
             Inl e \<Rightarrow> (Inl e, s)
           | Inr balance \<Rightarrow> (Inr (), s)))"

section \<open>The ethers library and JavaScript built-ins\<close>

text \<open>
  What a call into a collaborator outside the repository gives back: it throws (with the
  message of the thrown \<^verbatim>\<open>Error\<close>, or none when the thrown value is no \<^verbatim>\<open>Error\<close>) or
  it returns a value. The callers turn a thrown value into
  \<^verbatim>\<open>error instanceof Error ? error.message : 'Unknown error'\<close>.
\<close>

datatype 'a outcome = Throws "string option" | Returns 'a

fun errorMessage :: "string option \<Rightarrow> string" where
  "errorMessage (Some m) = m"
| "errorMessage None = ''Unknown error''"

text \<open>
  The functions of \<^verbatim>\<open>ethers\<close> the code calls are parameters of the model: hashing,
  the two byte conversions, the recovery of a signer from a signed message, and the address
  test. \<open>stub_ethers\<close> is a stand-in used to run examples only: its hash is the text
  \<^verbatim>\<open>keccak256(...)\<close> around its argument and a signature recovers to its own text.
\<close>

record ethers =
  keccak256 :: "string \<Rightarrow> string"
  toUtf8Bytes :: "string \<Rightarrow> string"
  getBytes :: "string \<Rightarrow> string outcome"
  verifyMessage :: "string \<Rightarrow> string \<Rightarrow> string outcome"
  isAddress :: "string \<Rightarrow> bool"

definition stub_ethers :: ethers where
  "stub_ethers =
     \<lparr>keccak256 = (\<lambda>b. ''keccak256('' @ b @ '')''), toUtf8Bytes = (\<lambda>s. s),
      getBytes = Returns, verifyMessage = (\<lambda>m sg. Returns sg), isAddress = (\<lambda>a. True)\<rparr>"

text \<open>\<^verbatim>\<open>String.prototype.toLowerCase\<close> on ASCII text, which is what an address is.\<close>

definition toLowerCase_char :: "char \<Rightarrow> char" where
  "toLowerCase_char c =
     (if 65 \<le> (of_char c :: nat) \<and> (of_char c :: nat) \<le> 90
      then char_of ((of_char c :: nat) + 32) else c)"

definition toLowerCase :: "string \<Rightarrow> string" where
  "toLowerCase s = map toLowerCase_char s"

text \<open>
  A JavaScript \<^verbatim>\<open>Set\<close> of strings as the list of its elements in insertion order;
  \<^verbatim>\<open>add\<close> keeps an element that is already there, \<^verbatim>\<open>size\<close> is the length.
\<close>

definition Set_add :: "string list \<Rightarrow> string \<Rightarrow> string list" where
  "Set_add xs x = (if x \<in> set xs then xs else xs @ [x])"

section \<open>SecurityManager (\<^verbatim>\<open>src/security/SecurityManager.ts\<close>)\<close>

record RateLimit =
  maxTransactions :: int
  timeWindow :: int

record SecurityConfig =
  multiSigThreshold :: int
  rateLimit :: RateLimit
  emergencyDelay :: int
  maxGasPrice :: string
  blacklistEnabled :: bool
  whitelistEnabled :: bool

record SignatureData =
  signer :: string
  timestamp :: int
  signature :: string

record SecurityManager =
  config :: SecurityConfig
  signers :: "string \<rightharpoonup> bool"
  transactionHistory :: "string \<rightharpoonup> int list"
  emergencyMode :: bool
  blacklist :: "string set"
  whitelist :: "string set"
  lastEmergencyTrigger :: int

definition SecurityManager_new :: "SecurityConfig \<Rightarrow> SecurityManager" where
  "SecurityManager_new cfg =
     \<lparr>config = cfg, signers = Map.empty, transactionHistory = Map.empty,
      emergencyMode = False, blacklist = {}, whitelist = {}, lastEmergencyTrigger = 0\<rparr>"

definition addSigner :: "ethers \<Rightarrow> SecurityManager \<Rightarrow> string \<Rightarrow> (error + unit) \<times> SecurityManager" where
  "addSigner lib sm addr =
     (if \<not> isAddress lib addr then (Inl (SecurityError ''Invalid address format''), sm)
      else (Inr (), sm\<lparr>signers := (signers sm)(toLowerCase addr \<mapsto> True)\<rparr>))"

text \<open>
  The loop of \<^verbatim>\<open>validateSignatures\<close> over the submitted signatures, with the set of
  signers collected so far. The clock is read once per signature; the readings of one call
  are taken to be the same \<open>now\<close>. A signature \<^verbatim>\<open>verifyMessage\<close> cannot parse makes it
  throw, which nothing in the method catches.
\<close>

fun collectSigners ::
  "ethers \<Rightarrow> SecurityManager \<Rightarrow> int \<Rightarrow> string \<Rightarrow> string list \<Rightarrow> SignatureData list
     \<Rightarrow> error + string list" where
  "collectSigners lib sm now message uniqueSigners [] = Inr uniqueSigners"
| "collectSigners lib sm now message uniqueSigners (sigData # rest) =
     (if now - timestamp sigData > 3600000 then Inl (SecurityError ''Signature expired'')
      else case verifyMessage lib message (signature sigData) of
        Throws m \<Rightarrow> Inl (Error (errorMessage m))
      | Returns recoveredAddress \<Rightarrow>
          if signers sm (toLowerCase recoveredAddress) = None
          then Inl (SecurityError ''Unauthorized signer'')
          else collectSigners lib sm now message
                 (Set_add uniqueSigners (toLowerCase recoveredAddress)) rest)"

definition validateSignatures ::
  "ethers \<Rightarrow> SecurityManager \<Rightarrow> int \<Rightarrow> string \<Rightarrow> SignatureData list \<Rightarrow> error + bool" where
  "validateSignatures lib sm now txHash signatures =
     (if int (length signatures) < multiSigThreshold (config sm) then Inr False
      else case collectSigners lib sm now (keccak256 lib (toUtf8Bytes lib txHash)) [] signatures of
        Inl e \<Rightarrow> Inl e
      | Inr uniqueSigners \<Rightarrow>
          Inr (int (length uniqueSigners) \<ge> multiSigThreshold (config sm)))"

text \<open>
  The identity one signature contributes when the loop lets it through: none when it is older
  than the hour, does not parse, or recovers to an address that is no signer.
\<close>

definition accepted_signer ::
  "ethers \<Rightarrow> SecurityManager \<Rightarrow> int \<Rightarrow> string \<Rightarrow> SignatureData \<Rightarrow> string option" where
  "accepted_signer lib sm now message sigData =
     (if now - timestamp sigData > 3600000 then None
      else case verifyMessage lib message (signature sigData) of
        Throws m \<Rightarrow> None
      | Returns recoveredAddress \<Rightarrow>
          if signers sm (toLowerCase recoveredAddress) = None then None
          else Some (toLowerCase recoveredAddress))"


text \<open>
  The claim's reading of consensus, in its words: the distinct identities recovered from the
  signatures that are less than one hour old and authorized, counted against the threshold.
\<close>

definition spec_valid_signers ::
  "ethers \<Rightarrow> SecurityManager \<Rightarrow> int \<Rightarrow> string \<Rightarrow> SignatureData list \<Rightarrow> string list" where
  "spec_valid_signers lib sm now txHash signatures =
     remdups (concat (map (\<lambda>sigData.
        if now - timestamp sigData < 3600000 then
          (case verifyMessage lib (keccak256 lib (toUtf8Bytes lib txHash)) (signature sigData) of
             Throws m \<Rightarrow> []
           | Returns a \<Rightarrow> if signers sm (toLowerCase a) = None then [] else [toLowerCase a])
        else []) signatures))"

definition spec_consensus ::
  "ethers \<Rightarrow> SecurityManager \<Rightarrow> int \<Rightarrow> string \<Rightarrow> SignatureData list \<Rightarrow> bool" where
  "spec_consensus lib sm now txHash signatures =
     (multiSigThreshold (config sm) \<le> int (length (spec_valid_signers lib sm now txHash signatures)))"

subsection \<open>Rate limiting and the admission of a transfer\<close>

definition historyOf :: "SecurityManager \<Rightarrow> string \<Rightarrow> int list" where
  "historyOf sm addr =
     (case transactionHistory sm (toLowerCase addr) of None \<Rightarrow> [] | Some h \<Rightarrow> h)"

definition checkRateLimit :: "SecurityManager \<Rightarrow> int \<Rightarrow> string \<Rightarrow> bool \<times> SecurityManager" where
  "checkRateLimit sm now addr =
     (let history = historyOf sm addr;
          recentHistory = filter (\<lambda>t. now - t < timeWindow (rateLimit (config sm))) history
      in (int (length recentHistory) < maxTransactions (rateLimit (config sm)),
          sm\<lparr>transactionHistory := (transactionHistory sm)(toLowerCase addr \<mapsto> recentHistory)\<rparr>))"

definition recordTransaction :: "SecurityManager \<Rightarrow> int \<Rightarrow> string \<Rightarrow> SecurityManager" where
  "recordTransaction sm now addr =
     sm\<lparr>transactionHistory :=
          (transactionHistory sm)(toLowerCase addr \<mapsto> historyOf sm addr @ [now])\<rparr>"

definition isBlacklisted :: "SecurityManager \<Rightarrow> string \<Rightarrow> bool" where
  "isBlacklisted sm addr = (toLowerCase addr \<in> blacklist sm)"

definition isWhitelisted :: "SecurityManager \<Rightarrow> string \<Rightarrow> bool" where
  "isWhitelisted sm addr =
     (if \<not> whitelistEnabled (config sm) then True else toLowerCase addr \<in> whitelist sm)"

text \<open>
  \<^verbatim>\<open>validateTransaction\<close>. \<open>BigInt\<close> is the built-in conversion of a string, which
  throws a \<^verbatim>\<open>SyntaxError\<close> (here \<open>None\<close>) on text that is no integer. The rate-limit
  check prunes the sender's history also when the call then throws.
\<close>

definition validateTransaction ::
  "(string \<Rightarrow> int option) \<Rightarrow> SecurityManager \<Rightarrow> int \<Rightarrow> string \<Rightarrow> string \<Rightarrow> string \<Rightarrow> string
     \<Rightarrow> (error + bool) \<times> SecurityManager" where
  "validateTransaction BigInt sm now from to amount gasPrice =
     (if emergencyMode sm then (Inl (SecurityError ''System is in emergency mode''), sm)
      else if blacklistEnabled (config sm) \<and> (isBlacklisted sm from \<or> isBlacklisted sm to)
        then (Inl (SecurityError ''Address is blacklisted''), sm)
      else if whitelistEnabled (config sm) \<and> (\<not> isWhitelisted sm from \<or> \<not> isWhitelisted sm to)
        then (Inl (SecurityError ''Address is not whitelisted''), sm)
      else case checkRateLimit sm now from of
        (False, sm') \<Rightarrow> (Inl (SecurityError ''Rate limit exceeded''), sm')
      | (True, sm') \<Rightarrow>
          (case BigInt gasPrice of
             None \<Rightarrow> (Inl (Error ''SyntaxError''), sm')
           | Some g \<Rightarrow>
               (case BigInt (maxGasPrice (config sm')) of
                  None \<Rightarrow> (Inl (Error ''SyntaxError''), sm')
                | Some mx \<Rightarrow>
                    if g > mx then (Inl (SecurityError ''Gas price too high''), sm')
                    else (Inr True, sm'))))"

text \<open>
  A history of rate-limit calls: an attempt is a call of \<^verbatim>\<open>checkRateLimit\<close> (as
  \<^verbatim>\<open>validateTransaction\<close> makes it), a record a call of \<^verbatim>\<open>recordTransaction\<close>, each
  with the address it is for and the clock value it reads.
\<close>

datatype rl_event = Attempt string int | Record string int

fun rl_step :: "SecurityManager \<Rightarrow> rl_event \<Rightarrow> SecurityManager" where
  "rl_step sm (Attempt addr t) = snd (checkRateLimit sm t addr)"
| "rl_step sm (Record addr t) = recordTransaction sm t addr"

fun rl_run :: "SecurityManager \<Rightarrow> rl_event list \<Rightarrow> SecurityManager" where
  "rl_run sm [] = sm"
| "rl_run sm (e # es) = rl_run (rl_step sm e) es"

text \<open>The clock values recorded for an address in a history, and those of its attempts.\<close>

fun recorded_times :: "string \<Rightarrow> rl_event list \<Rightarrow> int list" where
  "recorded_times addr [] = []"
| "recorded_times addr (Record a t # es) =
     (if toLowerCase a = toLowerCase addr then t # recorded_times addr es
      else recorded_times addr es)"
| "recorded_times addr (Attempt a t # es) = recorded_times addr es"

fun attempt_times :: "string \<Rightarrow> rl_event list \<Rightarrow> int list" where
  "attempt_times addr [] = []"
| "attempt_times addr (Attempt a t # es) =
     (if toLowerCase a = toLowerCase addr then t # attempt_times addr es
      else attempt_times addr es)"
| "attempt_times addr (Record a t # es) = attempt_times addr es"

text \<open>
  A manager for the examples: threshold 2, at most 2 transfers per 1000 ms, the signers
  \<^verbatim>\<open>0xA1\<close> and \<^verbatim>\<open>0xb2\<close>; and signatures by them, read at the clock value 10000000:
  two fresh ones and one more than an hour old.
\<close>

definition example_config :: SecurityConfig where
  "example_config =
     \<lparr>multiSigThreshold = 2, rateLimit = \<lparr>maxTransactions = 2, timeWindow = 1000\<rparr>,
      emergencyDelay = 0, maxGasPrice = ''100'', blacklistEnabled = False,
      whitelistEnabled = False\<rparr>"

definition two_signers :: SecurityManager where
  "two_signers =
     snd (addSigner stub_ethers
       (snd (addSigner stub_ethers (SecurityManager_new example_config) ''0xA1'')) ''0xb2'')"




section \<open>AvalancheBridge (\<^verbatim>\<open>src/bridges/avalanche/AvalancheBridge.ts\<close>)\<close>

record AvalancheAsset =
  asset_address :: string
  asset_symbol :: string
  asset_decimals :: int
  asset_name :: string
  isNative :: bool

text \<open>
  The provider and the configuration are outside the state: what the provider or a contract
  answers to a call is an argument of the operation that makes the call.
\<close>

record AvalancheBridge =
  av_initialized :: bool
  av_bridgeId :: string
  av_assets :: "string \<rightharpoonup> AvalancheAsset"
  av_transactions :: "string \<rightharpoonup> Transaction"
  av_paused :: bool

definition AvalancheBridge_new :: "string \<Rightarrow> AvalancheBridge" where
  "AvalancheBridge_new bid =
     \<lparr>av_initialized = False, av_bridgeId = bid, av_assets = Map.empty,
      av_transactions = Map.empty, av_paused = False\<rparr>"

text \<open>What \<^verbatim>\<open>populateTransaction\<close> returns, and a transaction receipt.\<close>

record PopulatedTransaction =
  tx_data :: "string option"
  tx_from :: "string option"
  tx_to :: "string option"

record TransactionReceipt =
  receipt_status :: "int option"

text \<open>\<^verbatim>\<open>v || d\<close> on a string that may be undefined: the empty string is falsy too.\<close>

definition or_else :: "string option \<Rightarrow> string \<Rightarrow> string" where
  "or_else v d = (case v of None \<Rightarrow> d | Some x \<Rightarrow> if x = [] then d else x)"

text \<open>\<^verbatim>\<open>ethers.keccak256(ethers.getBytes(tx.data || '0x'))\<close>\<close>

definition txHashOf :: "ethers \<Rightarrow> PopulatedTransaction \<Rightarrow> string outcome" where
  "txHashOf lib tx =
     (case getBytes lib (or_else (tx_data tx) ''0x'') of
        Throws m \<Rightarrow> Throws m
      | Returns bytes \<Rightarrow> Returns (keccak256 lib bytes))"

definition AvalancheBridge_registerAsset ::
  "AvalancheBridge \<Rightarrow> string \<Rightarrow> string \<Rightarrow> (int \<times> string) outcome
     \<Rightarrow> (error + unit) \<times> AvalancheBridge" where
  "AvalancheBridge_registerAsset s symb tokenAddr contractInfo =
     (if av_paused s then (Inl (BridgeError ''Bridge is paused''), s)
      else if av_assets s symb \<noteq> None
        then (Inl (BridgeError (''Asset '' @ symb @ '' already registered'')), s)
      else case contractInfo of
        Throws m \<Rightarrow>
          (Inl (BridgeError (''Failed to register asset '' @ symb @ '': '' @ errorMessage m)), s)
      | Returns (dec, nm) \<Rightarrow>
          (Inr (), s\<lparr>av_assets := (av_assets s)(symb \<mapsto>
             \<lparr>asset_address = tokenAddr, asset_symbol = symb, asset_decimals = dec,
              asset_name = nm, isNative = False\<rparr>)\<rparr>))"

text \<open>
  lockTokens, unlockTokens, mintTokens and burnTokens have one body: the guards, the
  population of the contract call, and the entry written to the transaction map under the
  hash of the call data. They differ in the word of the failure message and in who is
  sender and recipient, which \<open>verb\<close> and \<open>parties\<close> stand for.
\<close>

definition AvalancheBridge_enqueue ::
  "ethers \<Rightarrow> AvalancheBridge \<Rightarrow> int \<Rightarrow> string \<Rightarrow> int \<Rightarrow> string
     \<Rightarrow> (PopulatedTransaction \<Rightarrow> string \<times> string) \<Rightarrow> PopulatedTransaction outcome
     \<Rightarrow> (error + unit) \<times> AvalancheBridge" where
  "AvalancheBridge_enqueue lib s now symb amount verb parties populated =
     (if av_paused s then (Inl (BridgeError ''Bridge is paused''), s)
      else case av_assets s symb of
        None \<Rightarrow> (Inl (BridgeError (''Asset '' @ symb @ '' not registered'')), s)
      | Some asset \<Rightarrow>
          (case populated of
             Throws m \<Rightarrow>
               (Inl (BridgeError (''Failed to '' @ verb @ '' tokens for '' @ symb @ '': ''
                      @ errorMessage m)), s)
           | Returns tx \<Rightarrow>
               (case txHashOf lib tx of
                  Throws m \<Rightarrow>
                    (Inl (BridgeError (''Failed to '' @ verb @ '' tokens for '' @ symb @ '': ''
                           @ errorMessage m)), s)
                | Returns txHash \<Rightarrow>
                    (Inr (), s\<lparr>av_transactions := (av_transactions s)(txHash \<mapsto>
                       \<lparr>tx_symbol = symb, tx_amount = amount, sender = fst (parties tx),
                        recipient = snd (parties tx), sourceChain = ''Avalanche'',
                        targetChain = [], tx_timestamp = now, status = PENDING,
                        validatorSignatures = []\<rparr>)\<rparr>))))"

definition AvalancheBridge_lockTokens ::
  "ethers \<Rightarrow> AvalancheBridge \<Rightarrow> int \<Rightarrow> string \<Rightarrow> int \<Rightarrow> PopulatedTransaction outcome
     \<Rightarrow> (error + unit) \<times> AvalancheBridge" where
  "AvalancheBridge_lockTokens lib s now symb amount populated =
     AvalancheBridge_enqueue lib s now symb amount ''lock''
       (\<lambda>tx. (or_else (tx_from tx) (av_bridgeId s), av_bridgeId s)) populated"

definition AvalancheBridge_unlockTokens ::
  "ethers \<Rightarrow> AvalancheBridge \<Rightarrow> int \<Rightarrow> string \<Rightarrow> int \<Rightarrow> PopulatedTransaction outcome
     \<Rightarrow> (error + unit) \<times> AvalancheBridge" where
  "AvalancheBridge_unlockTokens lib s now symb amount populated =
     AvalancheBridge_enqueue lib s now symb amount ''unlock''
       (\<lambda>tx. (av_bridgeId s, or_else (tx_to tx) (av_bridgeId s))) populated"

definition AvalancheBridge_mintTokens ::
  "ethers \<Rightarrow> AvalancheBridge \<Rightarrow> int \<Rightarrow> string \<Rightarrow> int \<Rightarrow> PopulatedTransaction outcome
     \<Rightarrow> (error + unit) \<times> AvalancheBridge" where
  "AvalancheBridge_mintTokens lib s now symb amount populated =
     AvalancheBridge_enqueue lib s now symb amount ''mint''
       (\<lambda>tx. (av_bridgeId s, or_else (tx_to tx) (av_bridgeId s))) populated"

definition AvalancheBridge_burnTokens ::
  "ethers \<Rightarrow> AvalancheBridge \<Rightarrow> int \<Rightarrow> string \<Rightarrow> int \<Rightarrow> PopulatedTransaction outcome
     \<Rightarrow> (error + unit) \<times> AvalancheBridge" where
  "AvalancheBridge_burnTokens lib s now symb amount populated =
     AvalancheBridge_enqueue lib s now symb amount ''burn''
       (\<lambda>tx. (av_bridgeId s, or_else (tx_to tx) (av_bridgeId s))) populated"

text \<open>
  \<^verbatim>\<open>processTransaction\<close>; \<open>receipt\<close> is what \<^verbatim>\<open>getTransactionReceipt\<close> answers
  (\<open>Returns None\<close> for \<^verbatim>\<open>null\<close>). The error thrown for a missing receipt is caught by
  the method's own handler and thrown again with the prefix.
\<close>

definition AvalancheBridge_processTransaction ::
  "AvalancheBridge \<Rightarrow> string \<Rightarrow> TransactionReceipt option outcome
     \<Rightarrow> (error + unit) \<times> AvalancheBridge" where
  "AvalancheBridge_processTransaction s txHash receipt =
     (if av_paused s then (Inl (BridgeError ''Bridge is paused''), s)
      else case av_transactions s txHash of
        None \<Rightarrow> (Inl (BridgeError (''Transaction '' @ txHash @ '' not found'')), s)
      | Some t \<Rightarrow>
          if status t \<noteq> PENDING
          then (Inl (BridgeError (''Transaction '' @ txHash @ '' is not pending'')), s)
          else (case receipt of
             Throws m \<Rightarrow>
               (Inl (BridgeError (''Failed to process transaction: '' @ errorMessage m)), s)
           | Returns None \<Rightarrow>
               (Inl (BridgeError (''Failed to process transaction: ''
                      @ ''Transaction '' @ txHash @ '' not found on chain'')), s)
           | Returns (Some r) \<Rightarrow>
               (Inr (), s\<lparr>av_transactions := (av_transactions s)(txHash \<mapsto>
                  t\<lparr>status := (if receipt_status r = Some 1 then LOCKED else FAILED)\<rparr>)\<rparr>)))"

fun is_success :: "TransactionStatus \<Rightarrow> bool" where
  "is_success LOCKED = True"
| "is_success MINTED = True"
| "is_success BURNED = True"
| "is_success UNLOCKED = True"
| "is_success st = False"

text \<open>The status recorded under a hash, if any.\<close>

definition av_status :: "AvalancheBridge \<Rightarrow> string \<Rightarrow> TransactionStatus option" where
  "av_status s h = map_option status (av_transactions s h)"

text \<open>
  The bridge of the examples: USDC registered, then \<^verbatim>\<open>lockTokens('USDC', 100n)\<close>, whose
  populated call has the data \<^verbatim>\<open>0xa9059cbb64\<close>; then the transaction processed with a
  receipt of status 1; then the same \<^verbatim>\<open>lockTokens\<close> call once more.
\<close>

definition transfer_100 :: PopulatedTransaction where
  "transfer_100 = \<lparr>tx_data = Some ''0xa9059cbb64'', tx_from = None, tx_to = Some ''0xA''\<rparr>"

definition av_usdc :: AvalancheBridge where
  "av_usdc = snd (AvalancheBridge_registerAsset (AvalancheBridge_new ''0xB1'') ''USDC'' ''0xA''
                    (Returns (6, ''USD Coin'')))"

definition av_pending :: AvalancheBridge where
  "av_pending = snd (AvalancheBridge_lockTokens stub_ethers av_usdc 1 ''USDC'' 100
                       (Returns transfer_100))"

definition av_locked :: AvalancheBridge where
  "av_locked = snd (AvalancheBridge_processTransaction av_pending ''keccak256(0xa9059cbb64)''
                      (Returns (Some \<lparr>receipt_status = Some 1\<rparr>)))"

definition av_relocked :: AvalancheBridge where
  "av_relocked = snd (AvalancheBridge_lockTokens stub_ethers av_locked 2 ''USDC'' 100
                        (Returns transfer_100))"

text \<open>\<^verbatim>\<open>pause\<close> of AvalancheBridge.\<close>

definition AvalancheBridge_pause :: "AvalancheBridge \<Rightarrow> (error + unit) \<times> AvalancheBridge" where
  "AvalancheBridge_pause s = (Inr (), s\<lparr>av_paused := True\<rparr>)"

text \<open>
  A destination-side transfer for the examples: on the bridge with USDC registered,
  \<^verbatim>\<open>mintTokens('USDC', 100n)\<close>, whose populated call has the data \<^verbatim>\<open>0x40c10f1964\<close>;
  and the same bridge paused afterwards.
\<close>

definition mint_100 :: PopulatedTransaction where
  "mint_100 = \<lparr>tx_data = Some ''0x40c10f1964'', tx_from = None, tx_to = Some ''0xA''\<rparr>"

definition av_mint_pending :: AvalancheBridge where
  "av_mint_pending = snd (AvalancheBridge_mintTokens stub_ethers av_usdc 1 ''USDC'' 100
                            (Returns mint_100))"

definition av_mint_paused :: AvalancheBridge where
  "av_mint_paused = snd (AvalancheBridge_pause av_mint_pending)"

section \<open>Properties of MasterBridge\<close>

subsection \<open>Balance operations, one call\<close>

lemmas MasterBridge_balance_defs =
  MasterBridge_lockTokens_def MasterBridge_unlockTokens_def
  MasterBridge_mintTokens_def MasterBridge_burnTokens_def

lemma apply_op_total:
  "total_of (snd (apply_op s e)) symb =
     total_of s symb + (if succeeded (fst (apply_op s e))
        then credit symb (snd e) - debit symb (snd e) else 0)"
proof (cases e)
  case (Pair now op)
  then show ?thesis
    by (cases op) (auto simp: MasterBridge_balance_defs total_of_def split: option.splits)
qed

lemma apply_op_nonneg:
  assumes "balances_nonneg s symb" and "0 \<le> op_amount (snd e)"
  shows "balances_nonneg (snd (apply_op s e)) symb"
proof (cases e)
  case (Pair now op)
  with assms show ?thesis
    by (cases op) (auto simp: MasterBridge_balance_defs balances_nonneg_def split: option.splits)
qed

lemma apply_op_registered:
  "(assets (snd (apply_op s e)) symb = None) = (assets s symb = None)"
proof (cases e)
  case (Pair now op)
  then show ?thesis
    by (cases op) (auto simp: MasterBridge_balance_defs split: option.splits)
qed

subsection \<open>Balance operations, a run\<close>

lemma run_ops_total:
  "total_of (run_ops s es) symb =
     total_of s symb + sum_list (map (credit symb) (successful_ops s es))
       - sum_list (map (debit symb) (successful_ops s es))"
proof (induction es arbitrary: s)
  case Nil
  then show ?case by simp
next
  case (Cons e es)
  show ?case
    by (simp add: Cons.IH apply_op_total)
qed

lemma run_ops_nonneg:
  "balances_nonneg s symb \<Longrightarrow> (\<forall>e \<in> set es. 0 \<le> op_amount (snd e)) \<Longrightarrow>
     balances_nonneg (run_ops s es) symb"
  by (induction es arbitrary: s) (auto simp: apply_op_nonneg)

lemma run_ops_registered:
  "(assets (run_ops s es) symb = None) = (assets s symb = None)"
  by (induction es arbitrary: s) (auto simp: apply_op_registered)

lemma usdc_bridge_eval:
  "paused usdc_bridge = False"
  "assets usdc_bridge ''USDC'' =
     Some \<lparr>tokenAddress = ''0xA'', symbol = ''USDC'', decimals = 18, lockedAmount = 0,
           mintedAmount = 0, isActive = True, lastUpdate = 0\<rparr>"
  by (simp_all add: usdc_bridge_def MasterBridge_registerAsset_def MasterBridge_new_def)

lemma usdc_bridge_registered:
  "MasterBridge_registerAsset (MasterBridge_new ''bridge'') 0 ''USDC'' ''0xA'' = (Inr (), usdc_bridge)"
  by (simp add: usdc_bridge_def MasterBridge_registerAsset_def MasterBridge_new_def)

text \<open>
  C1 (amended). From the registration of a symbol on the bridge on, after any run of
  lockTokens, unlockTokens, mintTokens and burnTokens calls (on any symbols, failed calls
  included), the asset is still registered and its lockedAmount + mintedAmount in the
  bridge's own asset map equals the amounts of the successful lock and mint calls on the
  symbol minus the amounts of the successful unlock and burn calls on it. With the
  non-negative amounts these operations are given, lockedAmount, mintedAmount and their sum
  are never negative. AssetManager.getTotalSupply returns lockedAmount + mintedAmount of the
  entry in the registry's own map, which is 0 once the symbol is registered there.
\<close>

theorem conservation_since_registration:
  assumes "MasterBridge_registerAsset s0 t0 symb addr = (Inr (), s)"
  shows "(\<exists>a. assets (run_ops s es) symb = Some a \<and>
     lockedAmount a + mintedAmount a =
       sum_list (map (credit symb) (successful_ops s es))
         - sum_list (map (debit symb) (successful_ops s es)) \<and>
     ((\<forall>e \<in> set es. 0 \<le> op_amount (snd e)) \<longrightarrow>
        0 \<le> lockedAmount a \<and> 0 \<le> mintedAmount a \<and> 0 \<le> lockedAmount a + mintedAmount a)) \<and>
   (\<forall>am r. am_assets am symb = Some r \<longrightarrow>
      AssetManager_getTotalSupply am symb = Inr (lockedAmount r + mintedAmount r)) \<and>
   (\<forall>am t addr'. succeeded (fst (AssetManager_registerAsset am t symb addr')) \<longrightarrow>
      AssetManager_getTotalSupply (snd (AssetManager_registerAsset am t symb addr')) symb = Inr 0)"
proof -
  from assms have reg: "assets s symb \<noteq> None" and t0: "total_of s symb = 0"
    and nn: "balances_nonneg s symb"
    by (auto simp: MasterBridge_registerAsset_def total_of_def balances_nonneg_def
        split: if_splits)
  from reg obtain a where a: "assets (run_ops s es) symb = Some a"
    using run_ops_registered [of s es symb] by auto
  have "total_of (run_ops s es) symb =
      sum_list (map (credit symb) (successful_ops s es))
        - sum_list (map (debit symb) (successful_ops s es))"
    using run_ops_total [of s es symb] t0 by simp
  with a have eq: "lockedAmount a + mintedAmount a =
      sum_list (map (credit symb) (successful_ops s es))
        - sum_list (map (debit symb) (successful_ops s es))"
    by (simp add: total_of_def)
  have "(\<forall>e \<in> set es. 0 \<le> op_amount (snd e)) \<longrightarrow>
      0 \<le> lockedAmount a \<and> 0 \<le> mintedAmount a \<and> 0 \<le> lockedAmount a + mintedAmount a"
    using run_ops_nonneg [OF nn, of es] a by (auto simp: balances_nonneg_def)
  with a eq have bridge: "\<exists>a. assets (run_ops s es) symb = Some a \<and>
     lockedAmount a + mintedAmount a =
       sum_list (map (credit symb) (successful_ops s es))
         - sum_list (map (debit symb) (successful_ops s es)) \<and>
     ((\<forall>e \<in> set es. 0 \<le> op_amount (snd e)) \<longrightarrow>
        0 \<le> lockedAmount a \<and> 0 \<le> mintedAmount a \<and> 0 \<le> lockedAmount a + mintedAmount a)"
    by blast
  have own_entry: "AssetManager_getTotalSupply am symb = Inr (lockedAmount r + mintedAmount r)"
    if "am_assets am symb = Some r" for am r
    using that by (simp add: AssetManager_getTotalSupply_def)
  have fresh: "AssetManager_getTotalSupply (snd (AssetManager_registerAsset am t symb addr')) symb
      = Inr 0"
    if "succeeded (fst (AssetManager_registerAsset am t symb addr'))" for am t addr'
    using that
    by (auto simp: AssetManager_registerAsset_def AssetManager_getTotalSupply_def
        split: if_splits)
  from bridge own_entry fresh show ?thesis
    by blast
qed

text \<open>
  The theorem at the run lock 100, mint 40, unlock 30, burn 50 (which fails), burn 40 on
  \<^verbatim>\<open>USDC\<close>: the asset of the bridge ends with 70 locked and nothing minted; a registry
  on which USDC has just been registered answers 0.
\<close>

theorem conservation_since_registration_witness:
  "MasterBridge_registerAsset (MasterBridge_new ''bridge'') 0 ''USDC'' ''0xA'' = (Inr (), usdc_bridge) \<and>
   successful_ops usdc_bridge
     [(1, Lock ''USDC'' 100), (2, Mint ''USDC'' 40), (3, Unlock ''USDC'' 30),
      (4, Burn ''USDC'' 50), (5, Burn ''USDC'' 40)]
     = [Lock ''USDC'' 100, Mint ''USDC'' 40, Unlock ''USDC'' 30, Burn ''USDC'' 40] \<and>
   (\<exists>a. assets (run_ops usdc_bridge
       [(1, Lock ''USDC'' 100), (2, Mint ''USDC'' 40), (3, Unlock ''USDC'' 30),
        (4, Burn ''USDC'' 50), (5, Burn ''USDC'' 40)]) ''USDC'' = Some a \<and>
     lockedAmount a + mintedAmount a = 70 \<and> 0 \<le> lockedAmount a \<and> 0 \<le> mintedAmount a) \<and>
   succeeded (fst (AssetManager_registerAsset AssetManager_new 0 ''USDC'' ''0xA'')) \<and>
   AssetManager_getTotalSupply usdc_registry ''USDC'' = Inr 0"
proof -
  let ?es = "[(1, Lock ''USDC'' 100), (2, Mint ''USDC'' 40), (3, Unlock ''USDC'' 30),
      (4, Burn ''USDC'' 50), (5, Burn ''USDC'' 40)] :: (int \<times> bridge_op) list"
  note c = conservation_since_registration [OF usdc_bridge_registered, of ?es]
  have succ: "successful_ops usdc_bridge ?es
      = [Lock ''USDC'' 100, Mint ''USDC'' 40, Unlock ''USDC'' 30, Burn ''USDC'' 40]"
    by (simp add: usdc_bridge_eval MasterBridge_balance_defs)
  have amounts: "\<forall>e \<in> set ?es. 0 \<le> op_amount (snd e)"
    by simp
  from c [THEN conjunct1] amounts
  obtain a where a: "assets (run_ops usdc_bridge ?es) ''USDC'' = Some a"
    and eq: "lockedAmount a + mintedAmount a =
      sum_list (map (credit ''USDC'') (successful_ops usdc_bridge ?es))
        - sum_list (map (debit ''USDC'') (successful_ops usdc_bridge ?es))"
    and nn: "0 \<le> lockedAmount a" "0 \<le> mintedAmount a"
    by blast
  have total: "lockedAmount a + mintedAmount a = 70"
    unfolding eq succ by simp
  have registered: "succeeded (fst (AssetManager_registerAsset AssetManager_new 0 ''USDC'' ''0xA''))"
    by (simp add: AssetManager_registerAsset_def AssetManager_new_def)
  with c [THEN conjunct2, THEN conjunct2]
  have "AssetManager_getTotalSupply
      (snd (AssetManager_registerAsset AssetManager_new 0 ''USDC'' ''0xA'')) ''USDC'' = Inr 0"
    by blast
  then have registry: "AssetManager_getTotalSupply usdc_registry ''USDC'' = Inr 0"
    by (simp only: usdc_registry_def)
  from a nn succ total usdc_bridge_registered registered registry show ?thesis
    by blast
qed

text \<open>
  C1 as stated fails on the value getTotalSupply returns: USDC is registered on a registry
  and on a bridge, and \<^verbatim>\<open>lockTokens('USDC', 100n)\<close> on the bridge returns. The successful
  locks sum to 100 and the bridge holds lockedAmount + mintedAmount = 100, but
  getTotalSupply reads the registry's own map, which no bridge operation writes, and
  returns 0.
\<close>

theorem getTotalSupply_misses_bridge_lock_counterexample:
  "succeeded (fst (AssetManager_registerAsset AssetManager_new 0 ''USDC'' ''0xA'')) \<and>
   MasterBridge_registerAsset (MasterBridge_new ''bridge'') 0 ''USDC'' ''0xA'' = (Inr (), usdc_bridge) \<and>
   successful_ops usdc_bridge [(1, Lock ''USDC'' 100)] = [Lock ''USDC'' 100] \<and>
   total_of (run_ops usdc_bridge [(1, Lock ''USDC'' 100)]) ''USDC'' = 100 \<and>
   AssetManager_getTotalSupply usdc_registry ''USDC'' = Inr 0"
proof -
  have "succeeded (fst (AssetManager_registerAsset AssetManager_new 0 ''USDC'' ''0xA''))"
    by (simp add: AssetManager_registerAsset_def AssetManager_new_def)
  moreover have "successful_ops usdc_bridge [(1, Lock ''USDC'' 100)] = [Lock ''USDC'' 100]"
    by (simp add: usdc_bridge_eval MasterBridge_lockTokens_def)
  moreover have "total_of (run_ops usdc_bridge [(1, Lock ''USDC'' 100)]) ''USDC'' = 100"
    by (simp add: usdc_bridge_eval MasterBridge_lockTokens_def total_of_def)
  moreover have "AssetManager_getTotalSupply usdc_registry ''USDC'' = Inr 0"
    by (simp add: usdc_registry_def AssetManager_registerAsset_def AssetManager_new_def
        AssetManager_getTotalSupply_def)
  ultimately show ?thesis
    using usdc_bridge_registered by blast
qed

subsection \<open>Failure and success of one balance operation\<close>

lemma balance_op_failure:
  "\<not> succeeded (fst (MasterBridge_lockTokens s now symb n)) \<Longrightarrow>
     is_BridgeError (fst (MasterBridge_lockTokens s now symb n)) \<and>
     snd (MasterBridge_lockTokens s now symb n) = s"
  "\<not> succeeded (fst (MasterBridge_unlockTokens s now symb n)) \<Longrightarrow>
     is_BridgeError (fst (MasterBridge_unlockTokens s now symb n)) \<and>
     snd (MasterBridge_unlockTokens s now symb n) = s"
  "\<not> succeeded (fst (MasterBridge_mintTokens s now symb n)) \<Longrightarrow>
     is_BridgeError (fst (MasterBridge_mintTokens s now symb n)) \<and>
     snd (MasterBridge_mintTokens s now symb n) = s"
  "\<not> succeeded (fst (MasterBridge_burnTokens s now symb n)) \<Longrightarrow>
     is_BridgeError (fst (MasterBridge_burnTokens s now symb n)) \<and>
     snd (MasterBridge_burnTokens s now symb n) = s"
  by (auto simp: MasterBridge_balance_defs split: option.splits if_splits)

lemma balance_op_unknown:
  assumes "assets s symb = None"
  shows "\<not> succeeded (fst (MasterBridge_lockTokens s now symb n))"
    and "\<not> succeeded (fst (MasterBridge_unlockTokens s now symb n))"
    and "\<not> succeeded (fst (MasterBridge_mintTokens s now symb n))"
    and "\<not> succeeded (fst (MasterBridge_burnTokens s now symb n))"
  using assms by (simp_all add: MasterBridge_balance_defs)

lemma unlock_insufficient:
  "assets s symb = Some a \<Longrightarrow> lockedAmount a < n \<Longrightarrow>
     \<not> succeeded (fst (MasterBridge_unlockTokens s now symb n))"
  by (simp add: MasterBridge_unlockTokens_def)

lemma burn_insufficient:
  "assets s symb = Some a \<Longrightarrow> mintedAmount a < n \<Longrightarrow>
     \<not> succeeded (fst (MasterBridge_burnTokens s now symb n))"
  by (simp add: MasterBridge_burnTokens_def)

lemma unlock_sufficient:
  "\<not> paused s \<Longrightarrow> assets s symb = Some a \<Longrightarrow> n \<le> lockedAmount a \<Longrightarrow>
     MasterBridge_unlockTokens s now symb n =
       (Inr (), s\<lparr>assets := (assets s)(symb \<mapsto>
          a\<lparr>lockedAmount := lockedAmount a - n, lastUpdate := now\<rparr>)\<rparr>)"
  by (simp add: MasterBridge_unlockTokens_def)

lemma burn_sufficient:
  "\<not> paused s \<Longrightarrow> assets s symb = Some a \<Longrightarrow> n \<le> mintedAmount a \<Longrightarrow>
     MasterBridge_burnTokens s now symb n =
       (Inr (), s\<lparr>assets := (assets s)(symb \<mapsto>
          a\<lparr>mintedAmount := mintedAmount a - n, lastUpdate := now\<rparr>)\<rparr>)"
  by (simp add: MasterBridge_burnTokens_def)

text \<open>
  C4 (amended). lockTokens, unlockTokens, mintTokens and burnTokens fail with a BridgeError
  (not an AssetError) when the asset is unknown; unlockTokens (burnTokens) also fails with a
  BridgeError when the amount exceeds lockedAmount (mintedAmount); every failed call leaves
  the whole bridge state as it was. On a bridge that is not paused, unlockTokens
  (burnTokens) with an amount up to the balance returns and lowers lockedAmount
  (mintedAmount) by exactly the amount, the other balance untouched.
\<close>

theorem balance_operations_fail_with_BridgeError:
  "(assets s symb = None \<longrightarrow>
      is_BridgeError (fst (MasterBridge_lockTokens s now symb n)) \<and>
      is_BridgeError (fst (MasterBridge_unlockTokens s now symb n)) \<and>
      is_BridgeError (fst (MasterBridge_mintTokens s now symb n)) \<and>
      is_BridgeError (fst (MasterBridge_burnTokens s now symb n))) \<and>
   (assets s symb = Some a \<and> lockedAmount a < n \<longrightarrow>
      is_BridgeError (fst (MasterBridge_unlockTokens s now symb n))) \<and>
   (assets s symb = Some a \<and> mintedAmount a < n \<longrightarrow>
      is_BridgeError (fst (MasterBridge_burnTokens s now symb n))) \<and>
   (\<not> succeeded (fst (MasterBridge_lockTokens s now symb n)) \<longrightarrow>
      snd (MasterBridge_lockTokens s now symb n) = s) \<and>
   (\<not> succeeded (fst (MasterBridge_unlockTokens s now symb n)) \<longrightarrow>
      snd (MasterBridge_unlockTokens s now symb n) = s) \<and>
   (\<not> succeeded (fst (MasterBridge_mintTokens s now symb n)) \<longrightarrow>
      snd (MasterBridge_mintTokens s now symb n) = s) \<and>
   (\<not> succeeded (fst (MasterBridge_burnTokens s now symb n)) \<longrightarrow>
      snd (MasterBridge_burnTokens s now symb n) = s) \<and>
   (\<not> paused s \<and> assets s symb = Some a \<and> n \<le> lockedAmount a \<longrightarrow>
      fst (MasterBridge_unlockTokens s now symb n) = Inr () \<and>
      (\<exists>a'. assets (snd (MasterBridge_unlockTokens s now symb n)) symb = Some a' \<and>
         lockedAmount a' = lockedAmount a - n \<and> mintedAmount a' = mintedAmount a)) \<and>
   (\<not> paused s \<and> assets s symb = Some a \<and> n \<le> mintedAmount a \<longrightarrow>
      fst (MasterBridge_burnTokens s now symb n) = Inr () \<and>
      (\<exists>a'. assets (snd (MasterBridge_burnTokens s now symb n)) symb = Some a' \<and>
         mintedAmount a' = mintedAmount a - n \<and> lockedAmount a' = lockedAmount a))"
proof -
  have unknown: "assets s symb = None \<longrightarrow>
      is_BridgeError (fst (MasterBridge_lockTokens s now symb n)) \<and>
      is_BridgeError (fst (MasterBridge_unlockTokens s now symb n)) \<and>
      is_BridgeError (fst (MasterBridge_mintTokens s now symb n)) \<and>
      is_BridgeError (fst (MasterBridge_burnTokens s now symb n))"
    using balance_op_unknown [of s symb] balance_op_failure [of s now symb n] by blast
  have unlock_fail: "assets s symb = Some a \<and> lockedAmount a < n \<longrightarrow>
      is_BridgeError (fst (MasterBridge_unlockTokens s now symb n))"
    using unlock_insufficient [of s symb a n now] balance_op_failure(2) [of s now symb n]
    by blast
  have burn_fail: "assets s symb = Some a \<and> mintedAmount a < n \<longrightarrow>
      is_BridgeError (fst (MasterBridge_burnTokens s now symb n))"
    using burn_insufficient [of s symb a n now] balance_op_failure(4) [of s now symb n]
    by blast
  have unlock_ok: "\<not> paused s \<and> assets s symb = Some a \<and> n \<le> lockedAmount a \<longrightarrow>
      fst (MasterBridge_unlockTokens s now symb n) = Inr () \<and>
      (\<exists>a'. assets (snd (MasterBridge_unlockTokens s now symb n)) symb = Some a' \<and>
         lockedAmount a' = lockedAmount a - n \<and> mintedAmount a' = mintedAmount a)"
    by (simp add: unlock_sufficient)
  have burn_ok: "\<not> paused s \<and> assets s symb = Some a \<and> n \<le> mintedAmount a \<longrightarrow>
      fst (MasterBridge_burnTokens s now symb n) = Inr () \<and>
      (\<exists>a'. assets (snd (MasterBridge_burnTokens s now symb n)) symb = Some a' \<and>
         mintedAmount a' = mintedAmount a - n \<and> lockedAmount a' = lockedAmount a)"
    by (simp add: burn_sufficient)
  from unknown unlock_fail burn_fail unlock_ok burn_ok balance_op_failure [of s now symb n]
  show ?thesis
    by blast
qed

lemma usdc_150_eval:
  "paused usdc_150 = False"
  "assets usdc_150 ''USDC'' =
     Some \<lparr>tokenAddress = ''0xA'', symbol = ''USDC'', decimals = 18, lockedAmount = 150,
           mintedAmount = 0, isActive = True, lastUpdate = 2\<rparr>"
  by (simp_all add: usdc_150_def usdc_bridge_locked_def usdc_bridge_eval
      MasterBridge_lockTokens_def)

lemma usdc_30_eval:
  "paused usdc_30 = False"
  "assets usdc_30 ''USDC'' =
     Some \<lparr>tokenAddress = ''0xA'', symbol = ''USDC'', decimals = 18, lockedAmount = 30,
           mintedAmount = 0, isActive = True, lastUpdate = 3\<rparr>"
  by (simp_all add: usdc_30_def usdc_150_eval MasterBridge_unlockTokens_def)

text \<open>
  The scenario of the specification: USDC registered, lock 100, lock 50; unlock 120 returns
  and leaves lockedAmount = 30; unlock 31 then fails with a BridgeError and changes nothing;
  a symbol never registered fails with a BridgeError.
\<close>

theorem balance_operations_fail_with_BridgeError_witness:
  "fst (MasterBridge_unlockTokens usdc_150 3 ''USDC'' 120) = Inr () \<and>
   (\<exists>a'. assets usdc_30 ''USDC'' = Some a' \<and> lockedAmount a' = 30 \<and> mintedAmount a' = 0) \<and>
   is_BridgeError (fst (MasterBridge_unlockTokens usdc_30 4 ''USDC'' 31)) \<and>
   snd (MasterBridge_unlockTokens usdc_30 4 ''USDC'' 31) = usdc_30 \<and>
   is_BridgeError (fst (MasterBridge_lockTokens usdc_30 4 ''DAI'' 1)) \<and>
   snd (MasterBridge_lockTokens usdc_30 4 ''DAI'' 1) = usdc_30"
proof -
  have ok: "fst (MasterBridge_unlockTokens usdc_150 3 ''USDC'' 120) = Inr ()"
    using balance_operations_fail_with_BridgeError
      [of usdc_150 "''USDC''" 3 120 "the (assets usdc_150 ''USDC'')"]
    by (simp add: usdc_150_eval)
  have left: "\<exists>a'. assets usdc_30 ''USDC'' = Some a' \<and> lockedAmount a' = 30 \<and> mintedAmount a' = 0"
    by (simp add: usdc_30_eval)
  have insufficient: "is_BridgeError (fst (MasterBridge_unlockTokens usdc_30 4 ''USDC'' 31))"
    using balance_operations_fail_with_BridgeError
      [of usdc_30 "''USDC''" 4 31 "the (assets usdc_30 ''USDC'')"]
    by (simp add: usdc_30_eval)
  then have "\<not> succeeded (fst (MasterBridge_unlockTokens usdc_30 4 ''USDC'' 31))"
    by (cases "fst (MasterBridge_unlockTokens usdc_30 4 ''USDC'' 31)") auto
  then have same: "snd (MasterBridge_unlockTokens usdc_30 4 ''USDC'' 31) = usdc_30"
    using balance_operations_fail_with_BridgeError
      [of usdc_30 "''USDC''" 4 31 "the (assets usdc_30 ''USDC'')"]
    by blast
  have none: "assets usdc_30 ''DAI'' = None"
    by (simp add: usdc_30_def usdc_150_def usdc_bridge_locked_def usdc_bridge_def
        MasterBridge_balance_defs MasterBridge_registerAsset_def MasterBridge_new_def)
  have unknown: "is_BridgeError (fst (MasterBridge_lockTokens usdc_30 4 ''DAI'' 1))"
    using balance_operations_fail_with_BridgeError [of usdc_30 "''DAI''" 4 1] none
    by blast
  then have "\<not> succeeded (fst (MasterBridge_lockTokens usdc_30 4 ''DAI'' 1))"
    by (cases "fst (MasterBridge_lockTokens usdc_30 4 ''DAI'' 1)") auto
  then have same': "snd (MasterBridge_lockTokens usdc_30 4 ''DAI'' 1) = usdc_30"
    using balance_operations_fail_with_BridgeError [of usdc_30 "''DAI''" 4 1]
    by blast
  from ok left insufficient same unknown same' show ?thesis
    by blast
qed

text \<open>
  C4 as stated fails on the error class: on a bridge without the asset, lockTokens throws
  a BridgeError, which is not an AssetError.
\<close>

theorem balance_operations_AssetError_counterexample:
  "fst (MasterBridge_lockTokens (MasterBridge_new ''bridge'') 0 ''USDC'' 100)
     = Inl (BridgeError ''Asset USDC not registered'') \<and>
   \<not> is_AssetError (fst (MasterBridge_lockTokens (MasterBridge_new ''bridge'') 0 ''USDC'' 100)) \<and>
   \<not> is_AssetError (fst (MasterBridge_unlockTokens usdc_30 4 ''USDC'' 31))"
  by (simp add: MasterBridge_balance_defs MasterBridge_new_def usdc_30_eval)

subsection \<open>Emergency withdrawal\<close>

text \<open>
  C10. On a registered symbol, emergencyWithdraw returns and sets that asset's lockedAmount
  and mintedAmount to zero (so its total is zero whatever it was), changing of the asset only
  these and lastUpdate; every other asset, the transaction map, the validator map and the
  flags of the bridge stay as they were.
\<close>

theorem emergencyWithdraw_zeroes_one_asset:
  assumes "assets s symb = Some a"
  shows "fst (MasterBridge_emergencyWithdraw s now symb) = Inr () \<and>
     assets (snd (MasterBridge_emergencyWithdraw s now symb)) symb =
       Some (a\<lparr>lockedAmount := 0, mintedAmount := 0, lastUpdate := now\<rparr>) \<and>
     total_of (snd (MasterBridge_emergencyWithdraw s now symb)) symb = 0 \<and>
     (\<forall>other. other \<noteq> symb \<longrightarrow>
        assets (snd (MasterBridge_emergencyWithdraw s now symb)) other = assets s other) \<and>
     transactions (snd (MasterBridge_emergencyWithdraw s now symb)) = transactions s \<and>
     validators (snd (MasterBridge_emergencyWithdraw s now symb)) = validators s \<and>
     paused (snd (MasterBridge_emergencyWithdraw s now symb)) = paused s \<and>
     initialized (snd (MasterBridge_emergencyWithdraw s now symb)) = initialized s \<and>
     bridgeId (snd (MasterBridge_emergencyWithdraw s now symb)) = bridgeId s"
  using assms by (simp add: MasterBridge_emergencyWithdraw_def total_of_def)

lemma usdc_150_state:
  "usdc_150 =
     \<lparr>initialized = False, bridgeId = ''bridge'', validators = Map.empty,
      assets = [''USDC'' \<mapsto>
        \<lparr>tokenAddress = ''0xA'', symbol = ''USDC'', decimals = 18, lockedAmount = 150,
         mintedAmount = 0, isActive = True, lastUpdate = 2\<rparr>],
      transactions = Map.empty, paused = False\<rparr>"
  by (simp add: usdc_150_def usdc_bridge_locked_def usdc_bridge_def MasterBridge_new_def
      MasterBridge_registerAsset_def MasterBridge_lockTokens_def)

lemma two_assets_eval:
  "assets two_assets ''USDC'' =
     Some \<lparr>tokenAddress = ''0xA'', symbol = ''USDC'', decimals = 18, lockedAmount = 150,
           mintedAmount = 0, isActive = True, lastUpdate = 2\<rparr>"
  "assets two_assets ''WBTC'' =
     Some \<lparr>tokenAddress = ''0xB'', symbol = ''WBTC'', decimals = 18, lockedAmount = 0,
           mintedAmount = 7, isActive = True, lastUpdate = 4\<rparr>"
  by (simp_all add: two_assets_def usdc_150_state MasterBridge_registerAsset_def
      MasterBridge_mintTokens_def)

text \<open>
  The theorem on a bridge holding USDC (150 locked) and WBTC (7 minted): withdrawing USDC
  leaves WBTC at 7.
\<close>

theorem emergencyWithdraw_zeroes_one_asset_witness:
  "total_of two_assets ''USDC'' = 150 \<and>
   fst (MasterBridge_emergencyWithdraw two_assets 9 ''USDC'') = Inr () \<and>
   total_of (snd (MasterBridge_emergencyWithdraw two_assets 9 ''USDC'')) ''USDC'' = 0 \<and>
   total_of (snd (MasterBridge_emergencyWithdraw two_assets 9 ''USDC'')) ''WBTC'' = 7"
proof -
  note w = emergencyWithdraw_zeroes_one_asset [OF two_assets_eval(1), of 9]
  from w have other: "assets (snd (MasterBridge_emergencyWithdraw two_assets 9 ''USDC'')) ''WBTC''
      = assets two_assets ''WBTC''"
    by simp
  have before: "total_of two_assets ''USDC'' = 150"
    by (simp add: total_of_def two_assets_eval)
  have "total_of (snd (MasterBridge_emergencyWithdraw two_assets 9 ''USDC'')) ''WBTC'' = 7"
    unfolding total_of_def other by (simp add: two_assets_eval)
  with w before show ?thesis
    by blast
qed

text \<open>
  C8, the call the claim forbids: on a bridge that is not paused, with 100 USDC locked,
  \<^verbatim>\<open>emergencyWithdraw('USDC')\<close> returns and the balance is gone. The method never reads
  \<^verbatim>\<open>paused\<close>.
\<close>

theorem emergencyWithdraw_runs_when_not_paused:
  "\<not> paused usdc_bridge_locked \<and>
   total_of usdc_bridge_locked ''USDC'' = 100 \<and>
   fst (MasterBridge_emergencyWithdraw usdc_bridge_locked 2 ''USDC'') = Inr () \<and>
   total_of (snd (MasterBridge_emergencyWithdraw usdc_bridge_locked 2 ''USDC'')) ''USDC'' = 0 \<and>
   snd (MasterBridge_emergencyWithdraw usdc_bridge_locked 2 ''USDC'') \<noteq> usdc_bridge_locked"
proof -
  have st: "paused usdc_bridge_locked = False"
    "assets usdc_bridge_locked ''USDC'' =
       Some \<lparr>tokenAddress = ''0xA'', symbol = ''USDC'', decimals = 18, lockedAmount = 100,
             mintedAmount = 0, isActive = True, lastUpdate = 1\<rparr>"
    by (simp_all add: usdc_bridge_locked_def usdc_bridge_eval MasterBridge_lockTokens_def)
  have after: "total_of (snd (MasterBridge_emergencyWithdraw usdc_bridge_locked 2 ''USDC'')) ''USDC'' = 0"
    by (simp add: MasterBridge_emergencyWithdraw_def st total_of_def)
  have before: "total_of usdc_bridge_locked ''USDC'' = 100"
    by (simp add: st total_of_def)
  from after before
  have "snd (MasterBridge_emergencyWithdraw usdc_bridge_locked 2 ''USDC'') \<noteq> usdc_bridge_locked"
    by auto
  moreover have "fst (MasterBridge_emergencyWithdraw usdc_bridge_locked 2 ''USDC'') = Inr ()"
    by (simp add: MasterBridge_emergencyWithdraw_def st)
  ultimately show ?thesis
    using st(1) after before by blast
qed

text \<open>
  The sibling bridge has the guard: AvalancheCeloBridge refuses the withdrawal with a
  BridgeError while it is not paused, and changes nothing.
\<close>

lemma AvalancheCeloBridge_emergencyWithdraw_needs_pause:
  "\<not> isPaused s \<Longrightarrow>
     is_BridgeError (fst (AvalancheCeloBridge_emergencyWithdraw s symb)) \<and>
     snd (AvalancheCeloBridge_emergencyWithdraw s symb) = s"
  by (simp add: AvalancheCeloBridge_emergencyWithdraw_def)

section \<open>Properties of the asset registry\<close>

lemma AssetManager_register_duplicate:
  "am_assets am symb \<noteq> None \<or> tokenAddresses am addr \<noteq> None \<Longrightarrow>
     is_AssetError (fst (AssetManager_registerAsset am now symb addr)) \<and>
     snd (AssetManager_registerAsset am now symb addr) = am"
  by (auto simp: AssetManager_registerAsset_def)

lemma AssetManager_register_fresh:
  "am_assets am symb = None \<Longrightarrow> tokenAddresses am addr = None \<Longrightarrow>
     succeeded (fst (AssetManager_registerAsset am now symb addr))"
  by (simp add: AssetManager_registerAsset_def)

lemma AssetManager_unregister_frees_keys:
  assumes "succeeded (fst (AssetManager_unregisterAsset am symb))"
  shows "\<exists>a. am_assets am symb = Some a \<and>
     am_assets (snd (AssetManager_unregisterAsset am symb)) symb = None \<and>
     tokenAddresses (snd (AssetManager_unregisterAsset am symb)) (tokenAddress a) = None"
  using assms by (auto simp: AssetManager_unregisterAsset_def split: option.splits)

lemma AssetManager_register_records:
  assumes "succeeded (fst (AssetManager_registerAsset am now symb addr))"
  shows "\<exists>a. am_assets (snd (AssetManager_registerAsset am now symb addr)) symb = Some a \<and>
     tokenAddress a = addr"
  using assms by (auto simp: AssetManager_registerAsset_def split: if_splits)

lemma AssetManager_reregister:
  assumes "succeeded (fst (AssetManager_unregisterAsset am symb))"
  shows "\<exists>a. am_assets am symb = Some a \<and>
     succeeded (fst (AssetManager_registerAsset
       (snd (AssetManager_unregisterAsset am symb)) now symb (tokenAddress a)))"
proof -
  from AssetManager_unregister_frees_keys [OF assms] obtain a
    where a: "am_assets am symb = Some a"
      and free: "am_assets (snd (AssetManager_unregisterAsset am symb)) symb = None"
        "tokenAddresses (snd (AssetManager_unregisterAsset am symb)) (tokenAddress a) = None"
    by blast
  from AssetManager_register_fresh [OF free] a show ?thesis
    by blast
qed

lemma AssetManager_register_unregister_register:
  assumes "succeeded (fst (AssetManager_registerAsset am now symb addr))"
  shows "succeeded (fst (AssetManager_unregisterAsset
            (snd (AssetManager_registerAsset am now symb addr)) symb)) \<and>
     succeeded (fst (AssetManager_registerAsset
       (snd (AssetManager_unregisterAsset
              (snd (AssetManager_registerAsset am now symb addr)) symb)) now' symb addr))"
proof -
  let ?am1 = "snd (AssetManager_registerAsset am now symb addr)"
  from AssetManager_register_records [OF assms] obtain a
    where a: "am_assets ?am1 symb = Some a" "tokenAddress a = addr"
    by blast
  then have un: "succeeded (fst (AssetManager_unregisterAsset ?am1 symb))"
    by (simp add: AssetManager_unregisterAsset_def)
  from AssetManager_reregister [OF un, of now'] a
  have "succeeded (fst (AssetManager_registerAsset
       (snd (AssetManager_unregisterAsset ?am1 symb)) now' symb addr))"
    by auto
  with un show ?thesis
    by blast
qed

text \<open>getTotalSupply is the sum of the two balances of the registry's entry.\<close>

lemma AssetManager_getTotalSupply_sum:
  "am_assets am symb = Some a \<Longrightarrow>
     AssetManager_getTotalSupply am symb = Inr (lockedAmount a + mintedAmount a)"
  by (simp add: AssetManager_getTotalSupply_def)

lemma MasterBridge_register_refused:
  "paused s \<or> assets s symb \<noteq> None \<Longrightarrow>
     is_BridgeError (fst (MasterBridge_registerAsset s now symb addr)) \<and>
     snd (MasterBridge_registerAsset s now symb addr) = s"
  by (auto simp: MasterBridge_registerAsset_def)

lemma MasterBridge_reregister:
  "succeeded (fst (MasterBridge_unregisterAsset s symb)) \<Longrightarrow>
     succeeded (fst (MasterBridge_registerAsset
       (snd (MasterBridge_unregisterAsset s symb)) now symb addr))"
  by (auto simp: MasterBridge_unregisterAsset_def MasterBridge_registerAsset_def
      split: if_splits)

text \<open>
  C6 (amended). AssetManager.registerAsset fails with an AssetError, changing nothing,
  whenever the symbol or the token address is already registered; after a successful
  AssetManager.unregisterAsset, registering the same symbol with the token address it had
  succeeds (so register, unregister, register of one pair all succeed).
  MasterBridge.registerAsset fails with a BridgeError, changing nothing, when the bridge is
  paused or the symbol is already registered; after a successful
  MasterBridge.unregisterAsset, registering the same symbol (with any token address)
  succeeds.
\<close>

theorem registration_uniqueness:
  "(am_assets am symb \<noteq> None \<or> tokenAddresses am addr \<noteq> None \<longrightarrow>
      is_AssetError (fst (AssetManager_registerAsset am now symb addr)) \<and>
      snd (AssetManager_registerAsset am now symb addr) = am) \<and>
   (succeeded (fst (AssetManager_unregisterAsset am symb)) \<longrightarrow>
      (\<exists>a. am_assets am symb = Some a \<and>
         succeeded (fst (AssetManager_registerAsset
           (snd (AssetManager_unregisterAsset am symb)) now' symb (tokenAddress a))))) \<and>
   (succeeded (fst (AssetManager_registerAsset am now symb addr)) \<longrightarrow>
      succeeded (fst (AssetManager_unregisterAsset
            (snd (AssetManager_registerAsset am now symb addr)) symb)) \<and>
      succeeded (fst (AssetManager_registerAsset
        (snd (AssetManager_unregisterAsset
               (snd (AssetManager_registerAsset am now symb addr)) symb)) now' symb addr))) \<and>
   (paused s \<or> assets s symb \<noteq> None \<longrightarrow>
      is_BridgeError (fst (MasterBridge_registerAsset s now symb addr)) \<and>
      snd (MasterBridge_registerAsset s now symb addr) = s) \<and>
   (succeeded (fst (MasterBridge_unregisterAsset s symb)) \<longrightarrow>
      succeeded (fst (MasterBridge_registerAsset
        (snd (MasterBridge_unregisterAsset s symb)) now' symb addr)))"
  using AssetManager_register_duplicate [of am symb addr now]
    AssetManager_reregister [of am symb now']
    AssetManager_register_unregister_register [of am now symb addr now']
    MasterBridge_register_refused [of s symb now addr]
    MasterBridge_reregister [of s symb now' addr]
  by blast

lemma usdc_registry_state:
  "usdc_registry =
     \<lparr>am_assets = [''USDC'' \<mapsto>
        \<lparr>tokenAddress = ''0xA'', symbol = ''USDC'', decimals = 18, lockedAmount = 0,
         mintedAmount = 0, isActive = True, lastUpdate = 0\<rparr>],
      tokenAddresses = [''0xA'' \<mapsto> ''USDC'']\<rparr>"
  by (simp add: usdc_registry_def AssetManager_registerAsset_def AssetManager_new_def)

text \<open>
  The theorem on a registry holding USDC at 0xA: USDC at another address and another symbol
  at 0xA are both refused with an AssetError; after unregistering USDC, USDC at 0xA is
  accepted again. On the bridge holding USDC, a second USDC is refused with a BridgeError,
  and after unregistering it USDC is accepted again.
\<close>

theorem registration_uniqueness_witness:
  "is_AssetError (fst (AssetManager_registerAsset usdc_registry 1 ''USDC'' ''0xB'')) \<and>
   is_AssetError (fst (AssetManager_registerAsset usdc_registry 1 ''USDT'' ''0xA'')) \<and>
   succeeded (fst (AssetManager_unregisterAsset usdc_registry ''USDC'')) \<and>
   succeeded (fst (AssetManager_registerAsset
     (snd (AssetManager_unregisterAsset usdc_registry ''USDC'')) 2 ''USDC'' ''0xA'')) \<and>
   is_BridgeError (fst (MasterBridge_registerAsset usdc_bridge 1 ''USDC'' ''0xB'')) \<and>
   succeeded (fst (MasterBridge_unregisterAsset usdc_bridge ''USDC'')) \<and>
   succeeded (fst (MasterBridge_registerAsset
     (snd (MasterBridge_unregisterAsset usdc_bridge ''USDC'')) 2 ''USDC'' ''0xA''))"
proof -
  have dup_symbol: "is_AssetError (fst (AssetManager_registerAsset usdc_registry 1 ''USDC'' ''0xB''))"
    using registration_uniqueness [where am = usdc_registry and symb = "''USDC''" and addr = "''0xB''" and now = 1]
    by (simp add: usdc_registry_state)
  have dup_address: "is_AssetError (fst (AssetManager_registerAsset usdc_registry 1 ''USDT'' ''0xA''))"
    using registration_uniqueness [where am = usdc_registry and symb = "''USDT''" and addr = "''0xA''" and now = 1]
    by (simp add: usdc_registry_state)
  have un: "succeeded (fst (AssetManager_unregisterAsset usdc_registry ''USDC''))"
    by (simp add: AssetManager_unregisterAsset_def usdc_registry_state)
  with registration_uniqueness [where am = usdc_registry and symb = "''USDC''" and now' = 2]
  have again: "succeeded (fst (AssetManager_registerAsset
     (snd (AssetManager_unregisterAsset usdc_registry ''USDC'')) 2 ''USDC'' ''0xA''))"
    by (auto simp: usdc_registry_state)
  have bridge_dup: "is_BridgeError (fst (MasterBridge_registerAsset usdc_bridge 1 ''USDC'' ''0xB''))"
    using registration_uniqueness [where s = usdc_bridge and symb = "''USDC''" and addr = "''0xB''" and now = 1]
    by (simp add: usdc_bridge_eval)
  have bridge_un: "succeeded (fst (MasterBridge_unregisterAsset usdc_bridge ''USDC''))"
    by (simp add: MasterBridge_unregisterAsset_def usdc_bridge_eval)
  with registration_uniqueness [where s = usdc_bridge and symb = "''USDC''" and addr = "''0xA''" and now' = 2]
  have bridge_again: "succeeded (fst (MasterBridge_registerAsset
     (snd (MasterBridge_unregisterAsset usdc_bridge ''USDC'')) 2 ''USDC'' ''0xA''))"
    by blast
  from dup_symbol dup_address un again bridge_dup bridge_un bridge_again show ?thesis
    by blast
qed

text \<open>
  C6 as stated fails on MasterBridge: a second registration of USDC is refused with a
  BridgeError, not an AssetError, and a second symbol at the token address of USDC is
  accepted.
\<close>

theorem registration_uniqueness_counterexample:
  "fst (MasterBridge_registerAsset usdc_bridge 1 ''USDC'' ''0xB'')
     = Inl (BridgeError ''Asset USDC already registered'') \<and>
   \<not> is_AssetError (fst (MasterBridge_registerAsset usdc_bridge 1 ''USDC'' ''0xB'')) \<and>
   succeeded (fst (MasterBridge_registerAsset usdc_bridge 1 ''USDT'' ''0xA''))"
  by (simp add: MasterBridge_registerAsset_def usdc_bridge_eval usdc_bridge_def
      MasterBridge_new_def)

section \<open>Properties of the security policy\<close>

subsection \<open>Signature verification\<close>

lemma collectSigners_all_accepted:
  "\<forall>sd \<in> set sigs. accepted_signer lib sm now msg sd \<noteq> None \<Longrightarrow>
     \<exists>u. collectSigners lib sm now msg acc sigs = Inr u \<and>
       set u = set acc \<union> (the \<circ> accepted_signer lib sm now msg) ` set sigs \<and>
       (distinct acc \<longrightarrow> distinct u)"
proof (induction sigs arbitrary: acc)
  case Nil
  then show ?case by simp
next
  case (Cons sd sigs)
  from Cons.prems have ok: "accepted_signer lib sm now msg sd \<noteq> None"
    and rest: "\<forall>sd \<in> set sigs. accepted_signer lib sm now msg sd \<noteq> None"
    by simp_all
  from ok obtain a where fresh: "\<not> now - timestamp sd > 3600000"
    and rec: "verifyMessage lib msg (signature sd) = Returns a"
    and auth: "signers sm (toLowerCase a) \<noteq> None"
    and acc_a: "accepted_signer lib sm now msg sd = Some (toLowerCase a)"
    by (auto simp: accepted_signer_def split: if_splits outcome.splits)
  from Cons.IH [OF rest, of "Set_add acc (toLowerCase a)"] obtain u
    where u: "collectSigners lib sm now msg (Set_add acc (toLowerCase a)) sigs = Inr u"
      "set u = set (Set_add acc (toLowerCase a)) \<union> (the \<circ> accepted_signer lib sm now msg) ` set sigs"
      "distinct (Set_add acc (toLowerCase a)) \<longrightarrow> distinct u"
    by blast
  have step: "collectSigners lib sm now msg acc (sd # sigs) = Inr u"
    using fresh rec auth u(1) by simp
  have "set (Set_add acc (toLowerCase a)) = insert (toLowerCase a) (set acc)"
    by (auto simp: Set_add_def)
  moreover have "distinct acc \<longrightarrow> distinct (Set_add acc (toLowerCase a))"
    by (simp add: Set_add_def)
  ultimately show ?case
    using step u(2,3) acc_a by auto
qed



lemma card_as_length:
  "distinct u \<Longrightarrow> int (length u) = int (card (set u))"
  by (simp add: distinct_card)

lemma validateSignatures_all_accepted:
  assumes "\<not> int (length sigs) < multiSigThreshold (config sm)"
    and "\<forall>sd \<in> set sigs.
      accepted_signer lib sm now (keccak256 lib (toUtf8Bytes lib h)) sd \<noteq> None"
  shows "validateSignatures lib sm now h sigs =
     Inr (multiSigThreshold (config sm) \<le>
       int (card ((the \<circ> accepted_signer lib sm now (keccak256 lib (toUtf8Bytes lib h))) ` set sigs)))"
proof -
  let ?msg = "keccak256 lib (toUtf8Bytes lib h)"
  from collectSigners_all_accepted [OF assms(2), of "[]"] obtain u
    where u: "collectSigners lib sm now ?msg [] sigs = Inr u"
      "set u = (the \<circ> accepted_signer lib sm now ?msg) ` set sigs" "distinct u"
    by auto
  from u(3) have "int (length u) = int (card (set u))"
    by (rule card_as_length)
  with assms(1) u(1,2) show ?thesis
    by (simp add: validateSignatures_def)
qed


lemma spec_valid_signers_all_accepted:
  assumes "\<forall>sd \<in> set sigs.
      accepted_signer lib sm now (keccak256 lib (toUtf8Bytes lib h)) sd \<noteq> None \<and>
      now - timestamp sd \<noteq> 3600000"
  shows "set (spec_valid_signers lib sm now h sigs) =
     (the \<circ> accepted_signer lib sm now (keccak256 lib (toUtf8Bytes lib h))) ` set sigs"
proof -
  let ?msg = "keccak256 lib (toUtf8Bytes lib h)"
  have one: "(if now - timestamp sd < 3600000 then
          (case verifyMessage lib ?msg (signature sd) of
             Throws m \<Rightarrow> []
           | Returns a \<Rightarrow> if signers sm (toLowerCase a) = None then [] else [toLowerCase a])
        else []) = [the (accepted_signer lib sm now ?msg sd)]" if "sd \<in> set sigs" for sd
  proof -
    from assms that
    have acc: "accepted_signer lib sm now ?msg sd \<noteq> None"
      and ne: "now - timestamp sd \<noteq> 3600000"
      by blast+
    from acc obtain a where fresh: "\<not> now - timestamp sd > 3600000"
      and rec: "verifyMessage lib ?msg (signature sd) = Returns a"
      and auth: "signers sm (toLowerCase a) \<noteq> None"
      and acc_a: "accepted_signer lib sm now ?msg sd = Some (toLowerCase a)"
      by (auto simp: accepted_signer_def split: if_splits outcome.splits)
    from fresh ne have "now - timestamp sd < 3600000"
      by linarith
    with rec auth acc_a show ?thesis
      by simp
  qed
  have "concat (map (\<lambda>sd. if now - timestamp sd < 3600000 then
          (case verifyMessage lib ?msg (signature sd) of
             Throws m \<Rightarrow> []
           | Returns a \<Rightarrow> if signers sm (toLowerCase a) = None then [] else [toLowerCase a])
        else []) sigs) = concat (map (\<lambda>sd. [the (accepted_signer lib sm now ?msg sd)]) sigs)"
    using one by (intro arg_cong [where f = concat] map_cong) auto
  then show ?thesis
    by (simp add: spec_valid_signers_def)
qed

text \<open>
  When every submitted signature is less than an hour old and authorized, the result is
  the consensus of the claim.
\<close>

lemma validateSignatures_agrees_when_all_valid:
  assumes "\<not> int (length sigs) < multiSigThreshold (config sm)"
    and "\<forall>sd \<in> set sigs.
      accepted_signer lib sm now (keccak256 lib (toUtf8Bytes lib h)) sd \<noteq> None \<and>
      now - timestamp sd \<noteq> 3600000"
  shows "validateSignatures lib sm now h sigs = Inr (spec_consensus lib sm now h sigs)"
proof -
  have "distinct (spec_valid_signers lib sm now h sigs)"
    by (simp add: spec_valid_signers_def)
  then have "length (spec_valid_signers lib sm now h sigs)
      = card (set (spec_valid_signers lib sm now h sigs))"
    by (simp add: distinct_card)
  with spec_valid_signers_all_accepted [OF assms(2)]
    validateSignatures_all_accepted [OF assms(1), of lib now h] assms(2)
  show ?thesis
    by (simp add: spec_consensus_def)
qed


lemma lower_examples:
  "toLowerCase ''0xA1'' = ''0xa1''"
  "toLowerCase ''0xb2'' = ''0xb2''"
  "toLowerCase ''0xa1'' = ''0xa1''"
  by code_simp+

lemma two_signers_eval:
  "multiSigThreshold (config two_signers) = 2"
  "signers two_signers = [''0xa1'' \<mapsto> True, ''0xb2'' \<mapsto> True]"
  by (simp_all add: two_signers_def addSigner_def stub_ethers_def SecurityManager_new_def
      example_config_def lower_examples)





subsection \<open>Rate limiting\<close>

lemma config_checkRateLimit [simp]: "config (snd (checkRateLimit sm t a)) = config sm"
  by (simp add: checkRateLimit_def Let_def)

lemma config_recordTransaction [simp]: "config (recordTransaction sm t a) = config sm"
  by (simp add: recordTransaction_def)

lemma config_rl_step [simp]: "config (rl_step sm e) = config sm"
  by (cases e) simp_all

lemma config_rl_run [simp]: "config (rl_run sm es) = config sm"
  by (induction es arbitrary: sm) simp_all

lemma historyOf_checkRateLimit:
  "historyOf (snd (checkRateLimit sm t a)) b =
     (if toLowerCase a = toLowerCase b
      then filter (\<lambda>x. t - x < timeWindow (rateLimit (config sm))) (historyOf sm b)
      else historyOf sm b)"
  by (simp add: checkRateLimit_def historyOf_def Let_def)

lemma historyOf_recordTransaction:
  "historyOf (recordTransaction sm t a) b =
     (if toLowerCase a = toLowerCase b then historyOf sm b @ [t] else historyOf sm b)"
  by (simp add: recordTransaction_def historyOf_def)

lemma filter_recent_pruned:
  assumes "t \<le> now"
  shows "filter (\<lambda>x. t - x < (w::int) \<and> now - x < w) xs = filter (\<lambda>x. now - x < w) xs"
proof (rule filter_cong)
  show "xs = xs" by simp
next
  fix x
  from assms show "(t - x < w \<and> now - x < w) = (now - x < w)"
    by linarith
qed

text \<open>
  What is still inside the window at \<open>now\<close> after a history of calls none of whose attempts
  is later than \<open>now\<close>: what was inside it before, then what the history recorded inside it.
\<close>

lemma recent_after_run:
  "\<forall>t \<in> set (attempt_times a es). t \<le> now \<Longrightarrow>
     filter (\<lambda>x. now - x < timeWindow (rateLimit (config sm))) (historyOf (rl_run sm es) a)
       = filter (\<lambda>x. now - x < timeWindow (rateLimit (config sm))) (historyOf sm a)
         @ filter (\<lambda>x. now - x < timeWindow (rateLimit (config sm))) (recorded_times a es)"
proof (induction es arbitrary: sm)
  case Nil
  then show ?case by simp
next
  case (Cons e es)
  show ?case
  proof (cases e)
    case (Attempt b t)
    with Cons.prems have later: "\<forall>t \<in> set (attempt_times a es). t \<le> now"
      and this_one: "toLowerCase b = toLowerCase a \<longrightarrow> t \<le> now"
      by (auto split: if_splits)
    from Cons.IH [OF later, of "rl_step sm e"] Attempt this_one show ?thesis
      by (auto simp: historyOf_checkRateLimit filter_recent_pruned)
  next
    case (Record b t)
    with Cons.prems have later: "\<forall>t \<in> set (attempt_times a es). t \<le> now"
      by simp
    from Cons.IH [OF later, of "rl_step sm e"] Record show ?thesis
      by (auto simp: historyOf_recordTransaction)
  qed
qed

lemma history_after_run:
  "set (historyOf (rl_run sm es) a) \<subseteq> set (historyOf sm a) \<union> set (recorded_times a es)"
proof (induction es arbitrary: sm)
  case Nil
  then show ?case by simp
next
  case (Cons e es)
  have step: "set (historyOf (rl_step sm e) a) \<union> set (recorded_times a es)
      \<subseteq> set (historyOf sm a) \<union> set (recorded_times a (e # es))"
    by (cases e) (auto simp: historyOf_checkRateLimit historyOf_recordTransaction)
  from Cons.IH [of "rl_step sm e"] step show ?case
    by auto
qed

lemma checkRateLimit_result:
  "fst (checkRateLimit sm now a) =
     (int (length (filter (\<lambda>x. now - x < timeWindow (rateLimit (config sm))) (historyOf sm a)))
        < maxTransactions (rateLimit (config sm)))"
  by (simp add: checkRateLimit_def Let_def)

lemma validateTransaction_rate_limited:
  "\<not> fst (checkRateLimit sm now from) \<Longrightarrow>
     is_SecurityError (fst (validateTransaction BigInt sm now from to amount gasPrice))"
  by (cases "checkRateLimit sm now from") (auto simp: validateTransaction_def)

text \<open>
  C7 (amended). With window W and maximum count N: after any history of rate-limit calls in
  which at least N transfers from an address were recorded at clock values still within W
  of \<open>now\<close> (none of its attempts later than \<open>now\<close>), a further attempt at \<open>now\<close>
  is rejected: checkRateLimit returns false and validateTransaction throws a SecurityError.
  Once W has elapsed since every clock value held or recorded for the address, the next
  attempt passes the rate-limit check, provided N is at least 1.
\<close>

theorem rate_limit_window:
  "((\<forall>t \<in> set (attempt_times a es). t \<le> now) \<and>
    maxTransactions (rateLimit (config sm)) \<le>
      int (length (filter (\<lambda>x. now - x < timeWindow (rateLimit (config sm)))
                     (recorded_times a es))) \<longrightarrow>
      \<not> fst (checkRateLimit (rl_run sm es) now a) \<and>
      is_SecurityError (fst (validateTransaction BigInt (rl_run sm es) now a to amount gasPrice))) \<and>
   (1 \<le> maxTransactions (rateLimit (config sm)) \<and>
    (\<forall>t \<in> set (historyOf sm a @ recorded_times a es).
       timeWindow (rateLimit (config sm)) \<le> now - t) \<longrightarrow>
      fst (checkRateLimit (rl_run sm es) now a))"
proof -
  let ?W = "timeWindow (rateLimit (config sm))"
  let ?N = "maxTransactions (rateLimit (config sm))"
  have rejected: "\<not> fst (checkRateLimit (rl_run sm es) now a)"
    if att: "\<forall>t \<in> set (attempt_times a es). t \<le> now"
      and full: "?N \<le> int (length (filter (\<lambda>x. now - x < ?W) (recorded_times a es)))"
  proof -
    from recent_after_run [OF att, of sm]
    have "length (filter (\<lambda>x. now - x < ?W) (recorded_times a es))
        \<le> length (filter (\<lambda>x. now - x < ?W) (historyOf (rl_run sm es) a))"
      by simp
    with full show ?thesis
      by (simp add: checkRateLimit_result)
  qed
  have passed: "fst (checkRateLimit (rl_run sm es) now a)"
    if pos: "1 \<le> ?N"
      and old: "\<forall>t \<in> set (historyOf sm a @ recorded_times a es). ?W \<le> now - t"
  proof -
    have "\<not> now - t < ?W" if "t \<in> set (historyOf (rl_run sm es) a)" for t
    proof -
      from that history_after_run [of sm es a]
      have "t \<in> set (historyOf sm a @ recorded_times a es)"
        by auto
      with old have "?W \<le> now - t"
        by blast
      then show ?thesis
        by linarith
    qed
    then have "filter (\<lambda>x. now - x < ?W) (historyOf (rl_run sm es) a) = []"
      by (simp add: filter_empty_conv)
    with pos show ?thesis
      by (simp add: checkRateLimit_result)
  qed
  from rejected passed validateTransaction_rate_limited [of "rl_run sm es" now a BigInt to amount gasPrice]
  show ?thesis
    by blast
qed

lemma limiter_eval:
  "maxTransactions (rateLimit (config (SecurityManager_new example_config))) = 2"
  "timeWindow (rateLimit (config (SecurityManager_new example_config))) = 1000"
  "historyOf (SecurityManager_new example_config) a = []"
  by (simp_all add: SecurityManager_new_def example_config_def historyOf_def)

text \<open>
  The theorem with N = 2 and W = 1000 ms: transfers from \<^verbatim>\<open>0xA1\<close> admitted and recorded
  at 100 and 400 make the attempt at 900 fail; the attempt at 1400 passes.
\<close>

theorem rate_limit_window_witness:
  "\<not> fst (checkRateLimit
      (rl_run (SecurityManager_new example_config)
         [Attempt ''0xA1'' 100, Record ''0xA1'' 100, Attempt ''0xa1'' 400, Record ''0xa1'' 400])
      900 ''0xA1'') \<and>
   is_SecurityError (fst (validateTransaction (\<lambda>s. Some 1)
      (rl_run (SecurityManager_new example_config)
         [Attempt ''0xA1'' 100, Record ''0xA1'' 100, Attempt ''0xa1'' 400, Record ''0xa1'' 400])
      900 ''0xA1'' ''0xb2'' ''5'' ''1'')) \<and>
   fst (checkRateLimit
      (rl_run (SecurityManager_new example_config)
         [Attempt ''0xA1'' 100, Record ''0xA1'' 100, Attempt ''0xa1'' 400, Record ''0xa1'' 400])
      1400 ''0xA1'')"
proof -
  let ?es = "[Attempt ''0xA1'' 100, Record ''0xA1'' 100, Attempt ''0xa1'' 400, Record ''0xa1'' 400]"
  have times: "attempt_times ''0xA1'' ?es = [100, 400]" "recorded_times ''0xA1'' ?es = [100, 400]"
    by (simp_all add: lower_examples)
  have r: "\<not> fst (checkRateLimit (rl_run (SecurityManager_new example_config) ?es) 900 ''0xA1'') \<and>
      is_SecurityError (fst (validateTransaction (\<lambda>s. Some 1)
        (rl_run (SecurityManager_new example_config) ?es) 900 ''0xA1'' ''0xb2'' ''5'' ''1''))"
    using rate_limit_window [where a = "''0xA1''" and es = ?es and now = 900
        and sm = "SecurityManager_new example_config" and BigInt = "\<lambda>s. Some 1"
        and to = "''0xb2''" and amount = "''5''" and gasPrice = "''1''"]
    unfolding times limiter_eval by simp
  have p: "fst (checkRateLimit (rl_run (SecurityManager_new example_config) ?es) 1400 ''0xA1'')"
    using rate_limit_window [where a = "''0xA1''" and es = ?es and now = 1400
        and sm = "SecurityManager_new example_config"]
    unfolding times limiter_eval by simp
  from r p show ?thesis
    by blast
qed

text \<open>
  C7 as stated fails for N = 0: nothing was ever recorded for the address, so every window
  has elapsed, and the attempt is still refused.
\<close>

theorem rate_limit_zero_counterexample:
  "historyOf (SecurityManager_new (example_config\<lparr>rateLimit := \<lparr>maxTransactions = 0, timeWindow = 1000\<rparr>\<rparr>)) ''0xa1'' = [] \<and>
   \<not> fst (checkRateLimit
      (SecurityManager_new (example_config\<lparr>rateLimit := \<lparr>maxTransactions = 0, timeWindow = 1000\<rparr>\<rparr>))
      5000 ''0xa1'')"
  by (simp add: checkRateLimit_def historyOf_def SecurityManager_new_def example_config_def)

section \<open>Properties of the transaction ledger\<close>

subsection \<open>Processing a transaction that is not pending\<close>

lemma MasterBridge_process_not_pending:
  "transactions s h = Some t \<Longrightarrow> status t \<noteq> PENDING \<Longrightarrow>
     is_BridgeError (fst (MasterBridge_processTransaction s h)) \<and>
     snd (MasterBridge_processTransaction s h) = s"
  by (simp add: MasterBridge_processTransaction_def)

lemma AvalancheBridge_process_not_pending:
  "av_transactions s h = Some t \<Longrightarrow> status t \<noteq> PENDING \<Longrightarrow>
     is_BridgeError (fst (AvalancheBridge_processTransaction s h receipt)) \<and>
     snd (AvalancheBridge_processTransaction s h receipt) = s"
  by (simp add: AvalancheBridge_processTransaction_def)

text \<open>Nothing but processTransaction writes the transaction map of MasterBridge.\<close>

lemma MasterBridge_transactions_frame:
  "transactions (snd (MasterBridge_registerAsset s now symb addr)) = transactions s"
  "transactions (snd (MasterBridge_unregisterAsset s symb)) = transactions s"
  "transactions (snd (MasterBridge_lockTokens s now symb n)) = transactions s"
  "transactions (snd (MasterBridge_unlockTokens s now symb n)) = transactions s"
  "transactions (snd (MasterBridge_mintTokens s now symb n)) = transactions s"
  "transactions (snd (MasterBridge_burnTokens s now symb n)) = transactions s"
  "transactions (snd (MasterBridge_emergencyWithdraw s now symb)) = transactions s"
  "transactions (snd (MasterBridge_pause s)) = transactions s"
  "transactions (snd (MasterBridge_unpause s)) = transactions s"
  by (simp_all add: MasterBridge_registerAsset_def MasterBridge_unregisterAsset_def
      MasterBridge_balance_defs MasterBridge_emergencyWithdraw_def MasterBridge_pause_def
      MasterBridge_unpause_def split: option.splits)

subsection \<open>Processing a pending transaction\<close>

lemma AvalancheBridge_process_pending:
  assumes "av_transactions s h = Some t" and "status t = PENDING"
  shows "av_status (snd (AvalancheBridge_processTransaction s h receipt)) h =
     Some (if \<not> av_paused s \<and> (\<exists>r. receipt = Returns (Some r))
           then (if \<exists>r. receipt = Returns (Some r) \<and> receipt_status r = Some 1
                 then LOCKED else FAILED)
           else PENDING)"
proof (cases receipt)
  case (Throws m)
  with assms show ?thesis
    by (simp add: AvalancheBridge_processTransaction_def av_status_def)
next
  case (Returns ro)
  with assms show ?thesis
    by (cases ro) (auto simp: AvalancheBridge_processTransaction_def av_status_def)
qed

text \<open>The signatures of the transaction take no part in processing it.\<close>

lemma AvalancheBridge_process_ignores_signatures:
  "av_status (snd (AvalancheBridge_processTransaction
       (s\<lparr>av_transactions := (av_transactions s)(h \<mapsto> t\<lparr>validatorSignatures := sigs\<rparr>)\<rparr>)
       h receipt)) h
   = av_status (snd (AvalancheBridge_processTransaction
       (s\<lparr>av_transactions := (av_transactions s)(h \<mapsto> t)\<rparr>) h receipt)) h"
  by (auto simp: AvalancheBridge_processTransaction_def av_status_def
      split: outcome.splits option.splits)

lemma av_usdc_state:
  "av_usdc =
     \<lparr>av_initialized = False, av_bridgeId = ''0xB1'',
      av_assets = [''USDC'' \<mapsto>
        \<lparr>asset_address = ''0xA'', asset_symbol = ''USDC'', asset_decimals = 6,
         asset_name = ''USD Coin'', isNative = False\<rparr>],
      av_transactions = Map.empty, av_paused = False\<rparr>"
  by (simp add: av_usdc_def AvalancheBridge_registerAsset_def AvalancheBridge_new_def)

lemma stub_hash: "txHashOf stub_ethers transfer_100 = Returns ''keccak256(0xa9059cbb64)''"
  by (simp add: txHashOf_def stub_ethers_def transfer_100_def or_else_def)

lemma transfer_100_from: "tx_from transfer_100 = None"
  by (simp add: transfer_100_def)

lemma av_pending_state:
  "av_pending =
     av_usdc\<lparr>av_transactions := [''keccak256(0xa9059cbb64)'' \<mapsto>
        \<lparr>tx_symbol = ''USDC'', tx_amount = 100, sender = ''0xB1'', recipient = ''0xB1'',
         sourceChain = ''Avalanche'', targetChain = [], tx_timestamp = 1, status = PENDING,
         validatorSignatures = []\<rparr>]\<rparr>"
  by (simp add: av_pending_def AvalancheBridge_lockTokens_def AvalancheBridge_enqueue_def
      stub_hash av_usdc_state or_else_def transfer_100_from)

lemma av_pending_eval:
  "av_paused av_pending = False"
  "av_transactions av_pending ''keccak256(0xa9059cbb64)'' =
     Some \<lparr>tx_symbol = ''USDC'', tx_amount = 100, sender = ''0xB1'', recipient = ''0xB1'',
         sourceChain = ''Avalanche'', targetChain = [], tx_timestamp = 1, status = PENDING,
         validatorSignatures = []\<rparr>"
  by (simp_all add: av_pending_state av_usdc_state)

lemma av_locked_eval:
  "av_paused av_locked = False"
  "av_assets av_locked = av_assets av_usdc"
  "av_transactions av_locked ''keccak256(0xa9059cbb64)'' =
     Some \<lparr>tx_symbol = ''USDC'', tx_amount = 100, sender = ''0xB1'', recipient = ''0xB1'',
         sourceChain = ''Avalanche'', targetChain = [], tx_timestamp = 1, status = LOCKED,
         validatorSignatures = []\<rparr>"
  by (simp_all add: av_locked_def AvalancheBridge_processTransaction_def av_pending_eval
      av_pending_state av_usdc_state)

text \<open>
  What a call on a pending transaction answers when it does not reach the receipt's status:
  a BridgeError, and the bridge as it was.
\<close>

lemma AvalancheBridge_process_refused:
  assumes "av_transactions s h = Some t" and "status t = PENDING"
    and "av_paused s \<or> (\<forall>r. receipt \<noteq> Returns (Some r))"
  shows "is_BridgeError (fst (AvalancheBridge_processTransaction s h receipt)) \<and>
     snd (AvalancheBridge_processTransaction s h receipt) = s"
proof (cases receipt)
  case (Throws m)
  with assms(1,2) show ?thesis
    by (simp add: AvalancheBridge_processTransaction_def)
next
  case (Returns ro)
  show ?thesis
  proof (cases ro)
    case None
    with Returns assms(1,2) show ?thesis
      by (simp add: AvalancheBridge_processTransaction_def)
  next
    case (Some r)
    with Returns assms(3) have "av_paused s"
      by simp
    then show ?thesis
      by (simp add: AvalancheBridge_processTransaction_def)
  qed
qed

lemma AvalancheBridge_process_receipt:
  assumes "av_transactions s h = Some t" and "status t = PENDING" and "\<not> av_paused s"
  shows "AvalancheBridge_processTransaction s h (Returns (Some r)) =
     (Inr (), s\<lparr>av_transactions := (av_transactions s)(h \<mapsto>
        t\<lparr>status := (if receipt_status r = Some 1 then LOCKED else FAILED)\<rparr>)\<rparr>)"
  using assms by (simp add: AvalancheBridge_processTransaction_def)

lemma AvalancheBridge_process_ignores_signatures_result:
  "succeeded (fst (AvalancheBridge_processTransaction
       (s\<lparr>av_transactions := (av_transactions s)(h \<mapsto> t\<lparr>validatorSignatures := sigs\<rparr>)\<rparr>)
       h receipt))
   = succeeded (fst (AvalancheBridge_processTransaction
       (s\<lparr>av_transactions := (av_transactions s)(h \<mapsto> t)\<rparr>) h receipt))"
  by (auto simp: AvalancheBridge_processTransaction_def
      split: outcome.splits option.splits)

text \<open>
  C2 (amended). On a PENDING transaction, AvalancheBridge.processTransaction throws a
  BridgeError and leaves the bridge as it was (the transaction PENDING) when the bridge is
  paused, when the chain has no receipt for the hash, or when the query for it fails. On a
  bridge that is not paused and a receipt, it returns and changes only the status of that
  transaction: to LOCKED when the receipt's status is 1, to FAILED otherwise. So the
  transaction reaches a success state, which is always LOCKED, exactly when the bridge is
  not paused and the receipt has status 1. The signatures of the transaction and a
  threshold are not consulted: with any other \<open>validatorSignatures\<close> the call returns or
  throws alike and leaves the same status.
\<close>

theorem processTransaction_success_condition:
  "av_transactions s h = Some t \<and> status t = PENDING \<longrightarrow>
     (av_paused s \<or> (\<forall>r. receipt \<noteq> Returns (Some r)) \<longrightarrow>
        is_BridgeError (fst (AvalancheBridge_processTransaction s h receipt)) \<and>
        snd (AvalancheBridge_processTransaction s h receipt) = s) \<and>
     (\<forall>r. \<not> av_paused s \<and> receipt = Returns (Some r) \<longrightarrow>
        AvalancheBridge_processTransaction s h receipt =
          (Inr (), s\<lparr>av_transactions := (av_transactions s)(h \<mapsto>
             t\<lparr>status := (if receipt_status r = Some 1 then LOCKED else FAILED)\<rparr>)\<rparr>)) \<and>
     (case av_status (snd (AvalancheBridge_processTransaction s h receipt)) h of
        None \<Rightarrow> False
      | Some st \<Rightarrow>
          (is_success st \<longleftrightarrow>
             \<not> av_paused s \<and> (\<exists>r. receipt = Returns (Some r) \<and> receipt_status r = Some 1)) \<and>
          (is_success st \<longleftrightarrow> st = LOCKED) \<and>
          (st = FAILED \<longleftrightarrow>
             \<not> av_paused s \<and> (\<exists>r. receipt = Returns (Some r) \<and> receipt_status r \<noteq> Some 1))) \<and>
     (\<forall>sigs.
        succeeded (fst (AvalancheBridge_processTransaction
          (s\<lparr>av_transactions := (av_transactions s)(h \<mapsto> t\<lparr>validatorSignatures := sigs\<rparr>)\<rparr>)
          h receipt))
          = succeeded (fst (AvalancheBridge_processTransaction s h receipt)) \<and>
        av_status (snd (AvalancheBridge_processTransaction
          (s\<lparr>av_transactions := (av_transactions s)(h \<mapsto> t\<lparr>validatorSignatures := sigs\<rparr>)\<rparr>)
          h receipt)) h
          = av_status (snd (AvalancheBridge_processTransaction s h receipt)) h)"
proof (intro impI, elim conjE)
  assume t: "av_transactions s h = Some t" and pending: "status t = PENDING"
  have same: "s\<lparr>av_transactions := (av_transactions s)(h \<mapsto> t)\<rparr> = s"
    using t by (simp add: fun_upd_idem)
  have refused: "av_paused s \<or> (\<forall>r. receipt \<noteq> Returns (Some r)) \<longrightarrow>
        is_BridgeError (fst (AvalancheBridge_processTransaction s h receipt)) \<and>
        snd (AvalancheBridge_processTransaction s h receipt) = s"
    using AvalancheBridge_process_refused [OF t pending] by blast
  have moved: "\<forall>r. \<not> av_paused s \<and> receipt = Returns (Some r) \<longrightarrow>
        AvalancheBridge_processTransaction s h receipt =
          (Inr (), s\<lparr>av_transactions := (av_transactions s)(h \<mapsto>
             t\<lparr>status := (if receipt_status r = Some 1 then LOCKED else FAILED)\<rparr>)\<rparr>)"
    using AvalancheBridge_process_receipt [OF t pending] by blast
  have states: "case av_status (snd (AvalancheBridge_processTransaction s h receipt)) h of
        None \<Rightarrow> False
      | Some st \<Rightarrow>
          (is_success st \<longleftrightarrow>
             \<not> av_paused s \<and> (\<exists>r. receipt = Returns (Some r) \<and> receipt_status r = Some 1)) \<and>
          (is_success st \<longleftrightarrow> st = LOCKED) \<and>
          (st = FAILED \<longleftrightarrow>
             \<not> av_paused s \<and> (\<exists>r. receipt = Returns (Some r) \<and> receipt_status r \<noteq> Some 1))"
    unfolding AvalancheBridge_process_pending [OF t pending] by auto
  have sigs: "\<forall>sigs.
        succeeded (fst (AvalancheBridge_processTransaction
          (s\<lparr>av_transactions := (av_transactions s)(h \<mapsto> t\<lparr>validatorSignatures := sigs\<rparr>)\<rparr>)
          h receipt))
          = succeeded (fst (AvalancheBridge_processTransaction s h receipt)) \<and>
        av_status (snd (AvalancheBridge_processTransaction
          (s\<lparr>av_transactions := (av_transactions s)(h \<mapsto> t\<lparr>validatorSignatures := sigs\<rparr>)\<rparr>)
          h receipt)) h
          = av_status (snd (AvalancheBridge_processTransaction s h receipt)) h"
    using AvalancheBridge_process_ignores_signatures [where s = s and h = h and t = t
        and receipt = receipt]
      AvalancheBridge_process_ignores_signatures_result [where s = s and h = h and t = t
        and receipt = receipt]
    unfolding same by blast
  from refused moved states sigs
  show "(av_paused s \<or> (\<forall>r. receipt \<noteq> Returns (Some r)) \<longrightarrow>
        is_BridgeError (fst (AvalancheBridge_processTransaction s h receipt)) \<and>
        snd (AvalancheBridge_processTransaction s h receipt) = s) \<and>
     (\<forall>r. \<not> av_paused s \<and> receipt = Returns (Some r) \<longrightarrow>
        AvalancheBridge_processTransaction s h receipt =
          (Inr (), s\<lparr>av_transactions := (av_transactions s)(h \<mapsto>
             t\<lparr>status := (if receipt_status r = Some 1 then LOCKED else FAILED)\<rparr>)\<rparr>)) \<and>
     (case av_status (snd (AvalancheBridge_processTransaction s h receipt)) h of
        None \<Rightarrow> False
      | Some st \<Rightarrow>
          (is_success st \<longleftrightarrow>
             \<not> av_paused s \<and> (\<exists>r. receipt = Returns (Some r) \<and> receipt_status r = Some 1)) \<and>
          (is_success st \<longleftrightarrow> st = LOCKED) \<and>
          (st = FAILED \<longleftrightarrow>
             \<not> av_paused s \<and> (\<exists>r. receipt = Returns (Some r) \<and> receipt_status r \<noteq> Some 1))) \<and>
     (\<forall>sigs.
        succeeded (fst (AvalancheBridge_processTransaction
          (s\<lparr>av_transactions := (av_transactions s)(h \<mapsto> t\<lparr>validatorSignatures := sigs\<rparr>)\<rparr>)
          h receipt))
          = succeeded (fst (AvalancheBridge_processTransaction s h receipt)) \<and>
        av_status (snd (AvalancheBridge_processTransaction
          (s\<lparr>av_transactions := (av_transactions s)(h \<mapsto> t\<lparr>validatorSignatures := sigs\<rparr>)\<rparr>)
          h receipt)) h
          = av_status (snd (AvalancheBridge_processTransaction s h receipt)) h)"
    by (intro conjI)
qed

lemma stub_mint_hash: "txHashOf stub_ethers mint_100 = Returns ''keccak256(0x40c10f1964)''"
  by (simp add: txHashOf_def stub_ethers_def mint_100_def or_else_def)

lemma mint_100_to: "tx_to mint_100 = Some ''0xA''"
  by (simp add: mint_100_def)

lemma av_mint_pending_eval:
  "av_paused av_mint_pending = False"
  "av_transactions av_mint_pending ''keccak256(0x40c10f1964)'' =
     Some \<lparr>tx_symbol = ''USDC'', tx_amount = 100, sender = ''0xB1'', recipient = ''0xA'',
         sourceChain = ''Avalanche'', targetChain = [], tx_timestamp = 1, status = PENDING,
         validatorSignatures = []\<rparr>"
  by (simp_all add: av_mint_pending_def AvalancheBridge_mintTokens_def
      AvalancheBridge_enqueue_def stub_mint_hash av_usdc_state or_else_def mint_100_to)

lemma av_mint_paused_eval:
  "av_paused av_mint_paused = True"
  "av_transactions av_mint_paused = av_transactions av_mint_pending"
  by (simp_all add: av_mint_paused_def AvalancheBridge_pause_def)

text \<open>
  The theorem on the pending mint of the example bridge: a receipt of status 1 makes it
  LOCKED, a receipt of status 0 FAILED; without a receipt, with a failing query and on the
  paused bridge the call throws a BridgeError and the bridge is as before.
\<close>

theorem processTransaction_success_condition_witness:
  "av_status av_mint_pending ''keccak256(0x40c10f1964)'' = Some PENDING \<and>
   fst (AvalancheBridge_processTransaction av_mint_pending ''keccak256(0x40c10f1964)''
      (Returns (Some \<lparr>receipt_status = Some 1\<rparr>))) = Inr () \<and>
   av_status (snd (AvalancheBridge_processTransaction av_mint_pending ''keccak256(0x40c10f1964)''
      (Returns (Some \<lparr>receipt_status = Some 1\<rparr>)))) ''keccak256(0x40c10f1964)'' = Some LOCKED \<and>
   av_status (snd (AvalancheBridge_processTransaction av_mint_pending ''keccak256(0x40c10f1964)''
      (Returns (Some \<lparr>receipt_status = Some 0\<rparr>)))) ''keccak256(0x40c10f1964)'' = Some FAILED \<and>
   is_BridgeError (fst (AvalancheBridge_processTransaction av_mint_pending
      ''keccak256(0x40c10f1964)'' (Returns None))) \<and>
   snd (AvalancheBridge_processTransaction av_mint_pending
      ''keccak256(0x40c10f1964)'' (Returns None)) = av_mint_pending \<and>
   is_BridgeError (fst (AvalancheBridge_processTransaction av_mint_pending
      ''keccak256(0x40c10f1964)'' (Throws (Some ''timeout'')))) \<and>
   snd (AvalancheBridge_processTransaction av_mint_pending
      ''keccak256(0x40c10f1964)'' (Throws (Some ''timeout''))) = av_mint_pending \<and>
   is_BridgeError (fst (AvalancheBridge_processTransaction av_mint_paused
      ''keccak256(0x40c10f1964)'' (Returns (Some \<lparr>receipt_status = Some 1\<rparr>)))) \<and>
   snd (AvalancheBridge_processTransaction av_mint_paused
      ''keccak256(0x40c10f1964)'' (Returns (Some \<lparr>receipt_status = Some 1\<rparr>))) = av_mint_paused"
proof -
  let ?h = "''keccak256(0x40c10f1964)''"
  let ?t = "\<lparr>tx_symbol = ''USDC'', tx_amount = 100, sender = ''0xB1'', recipient = ''0xA'',
         sourceChain = ''Avalanche'', targetChain = [], tx_timestamp = 1, status = PENDING,
         validatorSignatures = []\<rparr>"
  have hyp: "av_transactions av_mint_pending ?h = Some ?t \<and> status ?t = PENDING"
    by (simp add: av_mint_pending_eval)
  have hyp_paused: "av_transactions av_mint_paused ?h = Some ?t \<and> status ?t = PENDING"
    by (simp add: av_mint_paused_eval av_mint_pending_eval)
  have c: "(av_paused av_mint_pending \<or> (\<forall>r. receipt \<noteq> Returns (Some r)) \<longrightarrow>
        is_BridgeError (fst (AvalancheBridge_processTransaction av_mint_pending ?h receipt)) \<and>
        snd (AvalancheBridge_processTransaction av_mint_pending ?h receipt) = av_mint_pending) \<and>
     (\<forall>r. \<not> av_paused av_mint_pending \<and> receipt = Returns (Some r) \<longrightarrow>
        AvalancheBridge_processTransaction av_mint_pending ?h receipt =
          (Inr (), av_mint_pending\<lparr>av_transactions := (av_transactions av_mint_pending)(?h \<mapsto>
             ?t\<lparr>status := (if receipt_status r = Some 1 then LOCKED else FAILED)\<rparr>)\<rparr>))"
    for receipt
    using processTransaction_success_condition [where s = av_mint_pending and h = ?h
        and t = ?t and receipt = receipt, THEN mp, OF hyp]
    by blast
  have p: "is_BridgeError (fst (AvalancheBridge_processTransaction av_mint_paused ?h receipt)) \<and>
        snd (AvalancheBridge_processTransaction av_mint_paused ?h receipt) = av_mint_paused"
    for receipt
    using processTransaction_success_condition [where s = av_mint_paused and h = ?h
        and t = ?t and receipt = receipt, THEN mp, OF hyp_paused]
    by (simp add: av_mint_paused_eval)
  have pending: "av_status av_mint_pending ?h = Some PENDING"
    by (simp add: av_status_def av_mint_pending_eval)
  have ok: "AvalancheBridge_processTransaction av_mint_pending ?h
      (Returns (Some \<lparr>receipt_status = Some 1\<rparr>)) =
        (Inr (), av_mint_pending\<lparr>av_transactions := (av_transactions av_mint_pending)(?h \<mapsto>
           ?t\<lparr>status := LOCKED\<rparr>)\<rparr>)"
    using c [of "Returns (Some \<lparr>receipt_status = Some 1\<rparr>)", THEN conjunct2]
    by (simp add: av_mint_pending_eval)
  have failed: "AvalancheBridge_processTransaction av_mint_pending ?h
      (Returns (Some \<lparr>receipt_status = Some 0\<rparr>)) =
        (Inr (), av_mint_pending\<lparr>av_transactions := (av_transactions av_mint_pending)(?h \<mapsto>
           ?t\<lparr>status := FAILED\<rparr>)\<rparr>)"
    using c [of "Returns (Some \<lparr>receipt_status = Some 0\<rparr>)", THEN conjunct2]
    by (simp add: av_mint_pending_eval)
  have none: "is_BridgeError (fst (AvalancheBridge_processTransaction av_mint_pending ?h
      (Returns None))) \<and>
      snd (AvalancheBridge_processTransaction av_mint_pending ?h (Returns None)) = av_mint_pending"
    using c [of "Returns None", THEN conjunct1] by simp
  have throws: "is_BridgeError (fst (AvalancheBridge_processTransaction av_mint_pending ?h
      (Throws (Some ''timeout'')))) \<and>
      snd (AvalancheBridge_processTransaction av_mint_pending ?h (Throws (Some ''timeout'')))
        = av_mint_pending"
    using c [of "Throws (Some ''timeout'')", THEN conjunct1] by simp
  from pending none throws p [of "Returns (Some \<lparr>receipt_status = Some 1\<rparr>)"]
  show ?thesis
    by (simp add: ok failed av_status_def)
qed

text \<open>
  C2 as stated fails: the pending mint of the example bridge, a destination-side transfer,
  carries no validator signature, and the verification of its (empty) signature list
  against the threshold of 2 says false; on a receipt of status 1 processTransaction
  returns and moves it from PENDING to LOCKED all the same.
\<close>

theorem processTransaction_without_signatures_counterexample:
  "av_status av_mint_pending ''keccak256(0x40c10f1964)'' = Some PENDING \<and>
   map_option validatorSignatures (av_transactions av_mint_pending ''keccak256(0x40c10f1964)'')
     = Some [] \<and>
   validateSignatures stub_ethers two_signers 10000000 ''keccak256(0x40c10f1964)'' [] = Inr False \<and>
   fst (AvalancheBridge_processTransaction av_mint_pending ''keccak256(0x40c10f1964)''
      (Returns (Some \<lparr>receipt_status = Some 1\<rparr>))) = Inr () \<and>
   av_status (snd (AvalancheBridge_processTransaction av_mint_pending ''keccak256(0x40c10f1964)''
      (Returns (Some \<lparr>receipt_status = Some 1\<rparr>)))) ''keccak256(0x40c10f1964)'' = Some LOCKED"
  by (simp add: av_status_def av_mint_pending_eval validateSignatures_def
      two_signers_eval AvalancheBridge_processTransaction_def)

subsection \<open>A second call with the same call data\<close>

text \<open>
  Whatever the map held under the hash of the populated call, after a successful
  lockTokens it holds a PENDING entry there.
\<close>

lemma AvalancheBridge_enqueue_overwrites:
  assumes "\<not> av_paused s" and "av_assets s symb \<noteq> None"
    and "txHashOf lib tx = Returns h"
  shows "fst (AvalancheBridge_enqueue lib s now symb amount verb parties (Returns tx)) = Inr () \<and>
     av_status (snd (AvalancheBridge_enqueue lib s now symb amount verb parties (Returns tx))) h
       = Some PENDING"
  using assms by (auto simp: AvalancheBridge_enqueue_def av_status_def)

text \<open>
  C3, the run that leaves a terminal state: the lock of the example bridge is LOCKED after
  processing; the same \<^verbatim>\<open>lockTokens('USDC', 100n)\<close> call, whose call data and so whose
  hash are the same, returns and the entry under that hash is PENDING again.
\<close>

theorem lockTokens_reopens_terminal_transaction:
  "av_status av_locked ''keccak256(0xa9059cbb64)'' = Some LOCKED \<and>
   fst (AvalancheBridge_lockTokens stub_ethers av_locked 2 ''USDC'' 100 (Returns transfer_100))
     = Inr () \<and>
   av_status av_relocked ''keccak256(0xa9059cbb64)'' = Some PENDING"
proof -
  have locked: "av_status av_locked ''keccak256(0xa9059cbb64)'' = Some LOCKED"
    by (simp add: av_status_def av_locked_eval)
  have registered: "av_assets av_locked ''USDC'' \<noteq> None"
    by (simp add: av_locked_eval av_usdc_state)
  from AvalancheBridge_enqueue_overwrites [OF _ registered stub_hash] locked show ?thesis
    by (simp add: av_relocked_def AvalancheBridge_lockTokens_def av_locked_eval)
qed

end
